theory Spec2Isabelle
  imports Complex_Main "HOL-Library.Log_Nat"
begin

section \<open>Python values\<close>

text \<open>
  Python's \<open>int\<close> is \<^typ>\<open>int\<close>.  A \<open>str\<close> is a \<^typ>\<open>string\<close>, read as a list of code
  points below 256.

  A Python \<open>float\<close> is an IEEE double.  The model carries it as a \<^typ>\<open>real\<close>.  A field
  or a literal holds the decimal it is written as.  Float arithmetic rounds to the
  nearest double at every step, \<open>f64\<close> being that rounding: a field or a literal is
  rounded when it enters an operation, and the result of every operation is rounded, in
  the order in which the code evaluates.  A comparison with a literal threshold is made
  on the decimals; it agrees with the comparison of the doubles unless the two sides are
  different decimals with the same nearest double.  The exponent of \<open>f64\<close> is unbounded:
  overflow to infinity, subnormal numbers, infinities and NaN are outside the model.
\<close>

text \<open>Rounding a real to an integer, a tie going to the even neighbour.\<close>

definition round_half_even :: "real \<Rightarrow> int" where
  "round_half_even x =
     (let f = \<lfloor>x\<rfloor>; d = x - of_int f
      in if d < 1 / 2 then f
         else if 1 / 2 < d then f + 1
         else if even f then f else f + 1)"

text \<open>
  The binary exponent of a positive real \<open>y\<close>: the \<open>e\<close> with \<open>2\<^sup>e \<le> y < 2\<^sup>e\<^sup>+\<^sup>1\<close>, read
  off the bit length of the integer part of \<open>y\<close> or of \<open>1 / y\<close>.
\<close>

definition binade :: "real \<Rightarrow> int" where
  "binade y = (if 1 \<le> y then bitlen \<lfloor>y\<rfloor> - 1 else - bitlen (\<lceil>1 / y\<rceil> - 1))"

text \<open>
  The double nearest to a real: 53 significant bits, a tie going to the even
  significand.
\<close>

definition f64 :: "real \<Rightarrow> real" where
  "f64 x =
     (if x = 0 then 0
      else let e = binade \<bar>x\<bar>
           in of_int (round_half_even (x * 2 powi (52 - e))) * 2 powi (e - 52))"

text \<open>
  Python's \<open>round(x, ndigits)\<close> on a float: the exact value of the double \<open>x\<close> is rounded
  to \<open>ndigits\<close> decimals, a tie going to the even neighbour, and the decimal that results
  is returned as the nearest double.
\<close>

definition py_round :: "real \<Rightarrow> nat \<Rightarrow> real" where
  "py_round x ndigits = f64 (of_int (round_half_even (x * 10 ^ ndigits)) / 10 ^ ndigits)"


section \<open>core/__init__.py: enums\<close>

datatype ScriptType = P2PKH | P2SH | P2WPKH | P2WSH | P2TR | UNKNOWN

text \<open>The \<open>.value\<close> of each member of the enum.\<close>

fun script_type_value :: "ScriptType \<Rightarrow> string" where
  "script_type_value P2PKH = ''p2pkh''"
| "script_type_value P2SH = ''p2sh''"
| "script_type_value P2WPKH = ''p2wpkh''"
| "script_type_value P2WSH = ''p2wsh''"
| "script_type_value P2TR = ''p2tr''"
| "script_type_value UNKNOWN = ''unknown''"

text \<open>\<open>ScriptType.from_esplora\<close>: a dict literal and \<open>mapping.get(key, cls.UNKNOWN)\<close>.\<close>

definition esplora_mapping :: "(string \<times> ScriptType) list" where
  "esplora_mapping =
     [(''p2pkh'', P2PKH),
      (''p2sh'', P2SH),
      (''v0_p2wpkh'', P2WPKH),
      (''v0_p2wsh'', P2WSH),
      (''v1_p2tr'', P2TR)]"

definition from_esplora :: "string \<Rightarrow> ScriptType" where
  "from_esplora scriptpubkey_type =
     (case map_of esplora_mapping scriptpubkey_type of
        Some st \<Rightarrow> st
      | None \<Rightarrow> UNKNOWN)"

datatype PrivacyFloor = TRACEABLE | COSTLY | EXPENSIVE | HIGH_FLOOR | IMPRACTICAL

datatype TxPattern = CONSOLIDATION | PEEL_CHAIN | FAN_OUT | COINJOIN | SIMPLE


section \<open>core/__init__.py: transactions and the graph\<close>

text \<open>
  Several dataclasses share field names (\<open>address\<close>, \<open>value_sat\<close>, \<open>script_type\<close>,
  \<open>confidence\<close>, \<open>total_addresses\<close>); a field is then written with its record's name
  in front.
\<close>

record TxInput =
  prev_txid :: string
  prev_vout :: int
  address :: "string option"
  value_sat :: int
  script_type :: ScriptType

record TxOutput =
  address :: "string option"
  value_sat :: int
  script_type :: ScriptType
  spent :: bool
  spending_txid :: "string option"

record GraphNode =
  txid :: string
  inputs :: "TxInput list"
  outputs :: "TxOutput list"
  fee_sat :: int
  size_bytes :: int
  weight :: int
  timestamp :: "int option"
  block_height :: "int option"
  depth :: int
  is_coinbase :: bool
  rbf_signaled :: bool
  resolved :: bool
  attributed_entities :: "string \<rightharpoonup> string"

record GraphEdge =
  from_txid :: string
  to_txid :: string
  address :: "string option"
  value_sat :: int
  vout_index :: int

record AttributionResult =
  address :: string
  entity :: string
  source :: string
  category :: string
  confidence :: string

record AttributionSummary =
  total_addresses :: int
  attributed_count :: int
  by_source :: "string \<rightharpoonup> int"
  by_category :: "string \<rightharpoonup> int"
  coverage_rate :: real
  sources_used :: "string list"

text \<open>
  \<open>nodes\<close> is a dict: an association list with distinct keys in insertion order.
  \<open>addresses_seen\<close> is a (finite) set.
\<close>

record GraphResult =
  root_input :: string
  root_txid :: string
  nodes :: "(string \<times> GraphNode) list"
  edges :: "GraphEdge list"
  addresses_seen :: "string set"
  max_depth_reached :: int
  requested_max_depth :: int
  node_limit_hit :: bool
  unresolved_count :: int
  is_dormant :: bool
  dormancy_note :: string
  api_provider_used :: string
  we_addresses_queried :: int
  we_addresses_total_unmatched :: int
  warnings :: "string list"
  attribution_results :: "AttributionResult list"
  attribution_summary :: "AttributionSummary option"

text \<open>\<open>GraphResult(root_input=..., root_txid=...)\<close>: every other field at its default.\<close>

definition GraphResult_init :: "string \<Rightarrow> string \<Rightarrow> GraphResult" where
  "GraphResult_init root_input' root_txid' =
     \<lparr>root_input = root_input',
      root_txid = root_txid',
      nodes = [],
      edges = [],
      addresses_seen = {},
      max_depth_reached = 0,
      requested_max_depth = 0,
      node_limit_hit = False,
      unresolved_count = 0,
      is_dormant = False,
      dormancy_note = [],
      api_provider_used = ''mempool'',
      we_addresses_queried = 0,
      we_addresses_total_unmatched = 0,
      warnings = [],
      attribution_results = [],
      attribution_summary = None\<rparr>"

text \<open>\<open>GraphNode(txid=..., depth=..., resolved=...)\<close> with the other fields at their defaults.\<close>

definition GraphNode_init :: "string \<Rightarrow> GraphNode" where
  "GraphNode_init txid' =
     \<lparr>txid = txid',
      inputs = [],
      outputs = [],
      fee_sat = 0,
      size_bytes = 0,
      weight = 0,
      timestamp = None,
      block_height = None,
      depth = 0,
      is_coinbase = False,
      rbf_signaled = False,
      resolved = True,
      attributed_entities = Map.empty\<rparr>"

text \<open>\<open>TxOutput(address=..., value_sat=..., script_type=...)\<close>, unspent by default.\<close>

definition TxOutput_init :: "string option \<Rightarrow> int \<Rightarrow> ScriptType \<Rightarrow> TxOutput" where
  "TxOutput_init address' value_sat' script_type' =
     \<lparr>TxOutput.address = address',
      TxOutput.value_sat = value_sat',
      TxOutput.script_type = script_type',
      spent = False,
      spending_txid = None\<rparr>"

section \<open>core/__init__.py: analysis results\<close>

record ComplexityMetrics =
  node_count :: int
  edge_count :: int
  unique_addresses :: int
  max_depth :: int
  avg_branch_factor :: real
  max_branch_factor :: int
  attribution_rate :: real
  attributed_addresses :: int
  total_addresses :: int
  mixing_signals :: int
  mixing_txids :: "string list"
  coinjoin_detected :: bool
  taproot_ratio :: real
  unresolved_paths :: int
  addresses_checked :: int
  unattributed_addresses :: int
  sources_exhausted :: bool
  avg_fan_in :: real
  max_fan_in :: int
  root_pattern :: "TxPattern option"
  root_pattern_detail :: string
  script_type_counts :: "string \<rightharpoonup> int"
  total_value_sat :: int

record TierEstimate =
  tier_name :: string
  hourly_rate :: real
  tooling_overhead :: real
  estimated_hours_low :: real
  estimated_hours_high :: real
  total_low :: real
  total_high :: real

text \<open>
  \<open>CostEstimate\<close> without its three rendered texts (\<open>privacy_floor_summary\<close>,
  \<open>confidence_note\<close>, \<open>minimum_case_threshold_note\<close>): they are f-strings over the
  fields below and feed nothing back into them.
\<close>

record CostEstimate =
  tiers :: "TierEstimate list"
  base_hours_per_hop :: real
  total_hops :: int
  mixing_multiplier :: real
  branching_multiplier :: real
  taproot_multiplier :: real
  fan_in_multiplier :: real
  unresolved_hours :: real
  privacy_floor :: PrivacyFloor
  confidence :: string


section \<open>core/cost_model.py\<close>

record TierDef =
  name :: string
  rate :: real
  tooling :: real

definition TIERS :: "TierDef list" where
  "TIERS =
     [\<lparr>name = ''Mid-level analyst'', rate = 200, tooling = 0\<rparr>,
      \<lparr>name = ''Senior specialist'', rate = 450, tooling = 150\<rparr>,
      \<lparr>name = ''Litigation expert'', rate = 1000, tooling = 150\<rparr>]"

definition BASE_TIME_THRESHOLDS :: "(real \<times> real) list" where
  "BASE_TIME_THRESHOLDS = [(0.7, 12), (0.4, 45), (0.1, 180), (0.0, 480)]"

text \<open>
  The float constants.  3.5, 0.5 and 8.0 are doubles as they stand; 1.4 and 1.6 are
  not, and the code computes with the doubles nearest to them.
\<close>

definition MIXING_MULTIPLIER :: real where "MIXING_MULTIPLIER = 3.5"
definition TAPROOT_THRESHOLD :: real where "TAPROOT_THRESHOLD = 0.5"
definition TAPROOT_MULTIPLIER :: real where "TAPROOT_MULTIPLIER = f64 1.4"
definition UNRESOLVED_HOURS_EACH :: real where "UNRESOLVED_HOURS_EACH = 8.0"
definition HIGH_ESTIMATE_FACTOR :: real where "HIGH_ESTIMATE_FACTOR = f64 1.6"

definition FLOOR_THRESHOLDS :: "(real \<times> PrivacyFloor) list" where
  "FLOOR_THRESHOLDS =
     [(500, TRACEABLE), (5000, COSTLY), (50000, EXPENSIVE), (500000, HIGH_FLOOR)]"

text \<open>
  \<open>_base_time_per_hop\<close>: the first threshold the rate exceeds decides; when the loop
  falls through, the minutes of the last entry are returned.
\<close>

definition base_time_per_hop :: "real \<Rightarrow> real" where
  "base_time_per_hop rate' =
     (case find (\<lambda>(threshold, minutes). rate' > threshold) BASE_TIME_THRESHOLDS of
        Some (threshold, minutes) \<Rightarrow> minutes
      | None \<Rightarrow> snd (last BASE_TIME_THRESHOLDS))"

definition classify_floor :: "real \<Rightarrow> PrivacyFloor" where
  "classify_floor reference_cost_usd =
     (case find (\<lambda>(threshold, floor'). reference_cost_usd < threshold) FLOOR_THRESHOLDS of
        Some (threshold, floor') \<Rightarrow> floor'
      | None \<Rightarrow> IMPRACTICAL)"

text \<open>
  The body of the \<open>for tier_def in TIERS\<close> loop of \<open>compute_cost\<close>; \<open>hours_low\<close> and
  \<open>hours_high\<close> are doubles already.
\<close>

definition tier_estimate :: "real \<Rightarrow> real \<Rightarrow> TierDef \<Rightarrow> TierEstimate" where
  "tier_estimate hours_low hours_high tier_def =
     (let effective_rate = f64 (f64 (rate tier_def) + f64 (tooling tier_def))
      in \<lparr>tier_name = name tier_def,
          hourly_rate = rate tier_def,
          tooling_overhead = tooling tier_def,
          estimated_hours_low = py_round hours_low 1,
          estimated_hours_high = py_round hours_high 1,
          total_low = py_round (f64 (hours_low * effective_rate)) 0,
          total_high = py_round (f64 (hours_high * effective_rate)) 0\<rparr>)"

text \<open>The confidence grade of \<open>compute_cost\<close>, with the sources-exhausted promotion.\<close>

definition confidence_grade :: "ComplexityMetrics \<Rightarrow> string" where
  "confidence_grade metrics =
     (let coverage_rate = attribution_rate metrics;
          confidence' =
            (if coverage_rate \<ge> 0.7 \<and> unresolved_paths metrics = 0 then ''high''
             else if coverage_rate \<ge> 0.4 then ''moderate''
             else if coverage_rate \<ge> 0.1 then ''low''
             else ''very low'')
      in if sources_exhausted metrics \<and> confidence' \<in> set [''low'', ''very low'']
         then ''moderate'' else confidence')"

definition compute_cost :: "ComplexityMetrics \<Rightarrow> CostEstimate" where
  "compute_cost metrics =
     (if max_depth metrics = 0 \<and> node_count metrics \<le> 1 then
        \<lparr>tiers =
           map (\<lambda>t. \<lparr>tier_name = name t,
                     hourly_rate = rate t,
                     tooling_overhead = tooling t,
                     estimated_hours_low = 0,
                     estimated_hours_high = 0,
                     total_low = 0,
                     total_high = 0\<rparr>) TIERS,
         base_hours_per_hop = 0,
         total_hops = 0,
         mixing_multiplier = 1.0,
         branching_multiplier = 1.0,
         taproot_multiplier = 1.0,
         fan_in_multiplier = 1.0,
         unresolved_hours = 0,
         privacy_floor = TRACEABLE,
         confidence = ''high''\<rparr>
      else
        let base_minutes = base_time_per_hop (attribution_rate metrics);
            base_hours = f64 (base_minutes / 60.0);
            mixing_mult = (if coinjoin_detected metrics then MIXING_MULTIPLIER else 1.0);
            branching_mult =
              (if avg_branch_factor metrics > 5
               then f64 (f64 (avg_branch_factor metrics) / 5.0) else 1.0);
            taproot_mult =
              (if taproot_ratio metrics > TAPROOT_THRESHOLD then TAPROOT_MULTIPLIER else 1.0);
            fan_in_mult =
              (if avg_fan_in metrics > 5 then f64 (f64 (avg_fan_in metrics) / 5.0) else 1.0);
            effective_mult =
              f64 (f64 (f64 (mixing_mult * branching_mult) * taproot_mult) * fan_in_mult);
            hops = max (max_depth metrics) 1;
            base_total = f64 (f64 (base_hours * f64 (of_int hops)) * effective_mult);
            unresolved = f64 (f64 (of_int (unresolved_paths metrics)) * UNRESOLVED_HOURS_EACH);
            hours_low = base_total;
            hours_high = f64 (f64 (base_total * HIGH_ESTIMATE_FACTOR) + unresolved);
            tiers' = map (tier_estimate hours_low hours_high) TIERS;
            senior = tiers' ! 1;
            reference_cost = f64 (f64 (total_low senior + total_high senior) / 2)
        in \<lparr>tiers = tiers',
            base_hours_per_hop = base_hours,
            total_hops = hops,
            mixing_multiplier = mixing_mult,
            branching_multiplier = py_round branching_mult 2,
            taproot_multiplier = taproot_mult,
            fan_in_multiplier = py_round fan_in_mult 2,
            unresolved_hours = unresolved,
            privacy_floor = classify_floor reference_cost,
            confidence = confidence_grade metrics\<rparr>)"

text \<open>
  The metrics of the cost model's test helper \<open>_make_metrics\<close> (its defaults, and the
  dataclass defaults for the fields it leaves out).
\<close>

definition make_metrics :: ComplexityMetrics where
  "make_metrics =
     \<lparr>node_count = 50, edge_count = 80, unique_addresses = 120, max_depth = 5,
      avg_branch_factor = 2.0, max_branch_factor = 3, attribution_rate = 0.5,
      attributed_addresses = 60, total_addresses = 120, mixing_signals = 0,
      mixing_txids = [], coinjoin_detected = False, taproot_ratio = 0.0,
      unresolved_paths = 0, addresses_checked = 120, unattributed_addresses = 60,
      sources_exhausted = False, avg_fan_in = 1.0, max_fan_in = 1,
      root_pattern = None, root_pattern_detail = [],
      script_type_counts = Map.empty, total_value_sat = 0\<rparr>"




definition zero_hop_metrics :: ComplexityMetrics where
  "zero_hop_metrics = make_metrics\<lparr>node_count := 1, max_depth := 0, mixing_signals := 5, coinjoin_detected := True, taproot_ratio := 0.9\<rparr>"

definition unresolved_metrics :: ComplexityMetrics where
  "unresolved_metrics = make_metrics\<lparr>unresolved_paths := 3\<rparr>"



section \<open>core/complexity.py\<close>

definition WASABI_V1_DENOMINATIONS :: "int set" where
  "WASABI_V1_DENOMINATIONS = {10000000}"

definition WHIRLPOOL_DENOMINATIONS :: "int set" where
  "WHIRLPOOL_DENOMINATIONS = {100000, 1000000, 2500000, 5000000, 25000000, 50000000}"

definition ALL_KNOWN_DENOMINATIONS :: "int set" where
  "ALL_KNOWN_DENOMINATIONS = WASABI_V1_DENOMINATIONS \<union> WHIRLPOOL_DENOMINATIONS"

definition MIN_EQUAL_OUTPUTS_FOR_COINJOIN :: nat where
  "MIN_EQUAL_OUTPUTS_FOR_COINJOIN = 5"

text \<open>
  \<open>collections.Counter\<close> over a sequence: a dict from element to count, its keys in
  order of first occurrence.
\<close>

fun counter_add :: "'a \<Rightarrow> ('a \<times> nat) list \<Rightarrow> ('a \<times> nat) list" where
  "counter_add x [] = [(x, 1)]"
| "counter_add x ((k, c) # rest) =
     (if k = x then (k, c + 1) # rest else (k, c) # counter_add x rest)"

definition Counter :: "'a list \<Rightarrow> ('a \<times> nat) list" where
  "Counter xs = fold counter_add xs []"

text \<open>
  \<open>most_common(1)[0]\<close> is \<open>max(items, key=count)\<close>: the first item among those with
  the largest count.  On an empty counter the index \<open>[0]\<close> raises; \<open>_is_coinjoin\<close> has
  returned before that, and the model has \<open>None\<close> there.
\<close>

fun max_by_count :: "('a \<times> nat) \<Rightarrow> ('a \<times> nat) list \<Rightarrow> ('a \<times> nat)" where
  "max_by_count best [] = best"
| "max_by_count best (p # ps) = max_by_count (if snd best < snd p then p else best) ps"

fun most_common_1 :: "('a \<times> nat) list \<Rightarrow> ('a \<times> nat) option" where
  "most_common_1 [] = None"
| "most_common_1 (p # ps) = Some (max_by_count p ps)"

definition is_coinjoin :: "GraphNode \<Rightarrow> bool" where
  "is_coinjoin node =
     (let outputs' = outputs node in
      if length outputs' < MIN_EQUAL_OUTPUTS_FOR_COINJOIN then False
      else
        let value_counts =
              Counter (filter (\<lambda>v. v > 0) (map TxOutput.value_sat outputs')) in
        if value_counts = [] then False
        else if list_ex (\<lambda>(value', count'). count' \<ge> 3 \<and> value' \<in> ALL_KNOWN_DENOMINATIONS)
                  value_counts
        then True
        else
          case most_common_1 value_counts of
            None \<Rightarrow> False
          | Some (most_common_value, most_common_count) \<Rightarrow>
              if most_common_count \<ge> MIN_EQUAL_OUTPUTS_FOR_COINJOIN
                 \<and> real most_common_count / real (length outputs') > 0.5
              then True
              else
                let equal_groups =
                      length (filter (\<lambda>count'. count' \<ge> 3) (map snd value_counts))
                in if equal_groups \<ge> 3 then True else False)"

text \<open>
  The ratio of check 2 is compared with 0.5 as an exact quotient.  The code compares the
  double nearest to it; 0.5 is a double, and for fewer than \<open>2\<^sup>5\<^sup>3\<close> outputs the quotient
  and its double lie on the same side of it.
\<close>

text \<open>Decimal text of an integer, as an f-string prints it.\<close>

fun digit_char :: "nat \<Rightarrow> char" where
  "digit_char n = ''0123456789'' ! (n mod 10)"

function str_nat :: "nat \<Rightarrow> string" where
  "str_nat n = (if n < 10 then [digit_char n] else str_nat (n div 10) @ [digit_char n])"
  by pat_completeness auto
termination
  by (relation "measure id") auto

declare str_nat.simps [simp del]

definition str_int :: "int \<Rightarrow> string" where
  "str_int i = (if i < 0 then CHR ''-'' # str_nat (nat (- i)) else str_nat (nat i))"

text \<open>
  \<open>_classify_tx_pattern\<close>.  The arrow U+2192 of the detail text is spelt as its three
  UTF-8 bytes.
\<close>

definition classify_tx_pattern :: "GraphNode \<Rightarrow> bool \<Rightarrow> TxPattern \<times> string" where
  "classify_tx_pattern node is_coinjoin' =
     (let n_in = length (inputs node);
          n_out = length (outputs node);
          detail = str_nat n_in @ ''-in '' @ [CHR 0xE2, CHR 0x86, CHR 0x92] @ '' ''
                   @ str_nat n_out @ ''-out''
      in if is_coinjoin' then (COINJOIN, detail)
         else if n_in \<ge> 5 \<and> n_out \<le> 2 then (CONSOLIDATION, detail)
         else if n_in \<le> 2 \<and> n_out = 2 then (PEEL_CHAIN, detail)
         else if n_in \<le> 3 \<and> n_out \<ge> 5 then (FAN_OUT, detail)
         else (SIMPLE, detail))"

text \<open>
  \<open>_empty_metrics\<close> passes the ten fields without a default; the others keep the
  defaults of the dataclass.
\<close>

definition empty_metrics :: ComplexityMetrics where
  "empty_metrics =
     \<lparr>node_count = 0,
      edge_count = 0,
      unique_addresses = 0,
      max_depth = 0,
      avg_branch_factor = 0.0,
      max_branch_factor = 0,
      attribution_rate = 0.0,
      attributed_addresses = 0,
      total_addresses = 0,
      mixing_signals = 0,
      mixing_txids = [],
      coinjoin_detected = False,
      taproot_ratio = 0.0,
      unresolved_paths = 0,
      addresses_checked = 0,
      unattributed_addresses = 0,
      sources_exhausted = False,
      avg_fan_in = 1.0,
      max_fan_in = 1,
      root_pattern = None,
      root_pattern_detail = [],
      script_type_counts = Map.empty,
      total_value_sat = 0\<rparr>"

text \<open>
  Python's \<open>max\<close> over a non-empty list of ints.  The quotient \<open>a / b\<close> of two ints is the
  double nearest to the exact quotient.
\<close>

definition py_max :: "int list \<Rightarrow> int" where
  "py_max xs = fold max (tl xs) (hd xs)"

text \<open>The truth value of an \<open>Optional[str]\<close>: neither \<open>None\<close> nor empty.\<close>

fun truthy_str :: "string option \<Rightarrow> bool" where
  "truthy_str None = False"
| "truthy_str (Some s) = (s \<noteq> [])"

definition compute_complexity :: "GraphResult \<Rightarrow> ComplexityMetrics" where
  "compute_complexity graph =
     (let nodes' = map snd (nodes graph) in
      if nodes' = [] then empty_metrics
      else
        let node_count' = int (length nodes');
            edge_count' = int (length (edges graph));
            unique_addresses' = int (card (addresses_seen graph));
            max_depth' = max_depth_reached graph;
            output_counts = map (\<lambda>n. int (length (outputs n))) (filter resolved nodes');
            avg_branch =
              (if output_counts \<noteq> []
               then f64 (of_int (sum_list output_counts) / of_int (int (length output_counts)))
               else 1.0);
            max_branch = (if output_counts \<noteq> [] then py_max output_counts else 1);
            input_counts =
              map (\<lambda>n. int (length (inputs n)))
                (filter (\<lambda>n. resolved n \<and> \<not> is_coinbase n) nodes');
            avg_fan_in' =
              (if input_counts \<noteq> []
               then f64 (of_int (sum_list input_counts) / of_int (int (length input_counts)))
               else 1.0);
            max_fan_in' = (if input_counts \<noteq> [] then py_max input_counts else 1);
            attributed = \<Union> (set (map (\<lambda>n. dom (attributed_entities n)) nodes'));
            attributed_count' = int (card attributed);
            total_addr = max unique_addresses' 1;
            attribution_rate' = f64 (of_int attributed_count' / of_int total_addr);
            addresses_checked' =
              (case attribution_summary graph of
                 Some summary \<Rightarrow> AttributionSummary.total_addresses summary
               | None \<Rightarrow> attributed_count' + we_addresses_queried graph);
            unattributed_addresses' =
              (case attribution_summary graph of
                 Some summary \<Rightarrow>
                   AttributionSummary.total_addresses summary - attributed_count summary
               | None \<Rightarrow> unique_addresses' - attributed_count');
            mixing_txids' = map txid (filter (\<lambda>n. resolved n \<and> is_coinjoin n) nodes');
            mixing_signals' = int (length mixing_txids');
            coinjoin_detected' = (mixing_signals' > 0);
            root = (case map_of (nodes graph) (root_txid graph) of
                      Some root_node \<Rightarrow>
                        if resolved root_node
                        then (let (p, d) = classify_tx_pattern root_node
                                    (coinjoin_detected' \<and> txid root_node \<in> set mixing_txids')
                              in (Some p, d))
                        else (None, [])
                    | None \<Rightarrow> (None, []));
            all_script_types =
              concat (map (\<lambda>n.
                  map TxInput.script_type
                    (filter (\<lambda>inp. truthy_str (TxInput.address inp)) (inputs n))
                  @ map TxOutput.script_type
                    (filter (\<lambda>out. truthy_str (TxOutput.address out)) (outputs n)))
                (filter resolved nodes'));
            taproot_count = int (length (filter (\<lambda>st. st = P2TR) all_script_types));
            taproot_ratio' =
              (if all_script_types \<noteq> []
               then f64 (of_int taproot_count / of_int (int (length all_script_types)))
               else 0.0);
            script_counts =
              fold (\<lambda>st m. m(script_type_value st \<mapsto>
                      (case m (script_type_value st) of Some c \<Rightarrow> c | None \<Rightarrow> 0) + 1))
                all_script_types Map.empty;
            unresolved = int (length (filter (\<lambda>n. \<not> resolved n) nodes'));
            total_value =
              sum_list (concat (map (\<lambda>n. map TxOutput.value_sat (outputs n))
                                  (filter resolved nodes')));
            sources_exhausted' =
              (we_addresses_queried graph \<ge> we_addresses_total_unmatched graph)
        in \<lparr>node_count = node_count',
            edge_count = edge_count',
            unique_addresses = unique_addresses',
            max_depth = max_depth',
            avg_branch_factor = py_round avg_branch 2,
            max_branch_factor = max_branch,
            attribution_rate = py_round attribution_rate' 4,
            attributed_addresses = attributed_count',
            total_addresses = unique_addresses',
            mixing_signals = mixing_signals',
            mixing_txids = mixing_txids',
            coinjoin_detected = coinjoin_detected',
            taproot_ratio = py_round taproot_ratio' 4,
            unresolved_paths = unresolved,
            addresses_checked = addresses_checked',
            unattributed_addresses = unattributed_addresses',
            sources_exhausted = sources_exhausted',
            avg_fan_in = py_round avg_fan_in' 2,
            max_fan_in = max_fan_in',
            root_pattern = fst root,
            root_pattern_detail = snd root,
            script_type_counts = script_counts,
            total_value_sat = total_value\<rparr>)"

text \<open>The count a counter holds for a key (0 for a key it does not hold).\<close>

definition cnt :: "('a \<times> nat) list \<Rightarrow> 'a \<Rightarrow> nat" where
  "cnt c k = (case map_of c k of None \<Rightarrow> 0 | Some n \<Rightarrow> n)"

text \<open>
  The transaction of scenario S2: ten outputs of 10 000 000 sat and five change
  outputs of 150 000 sat.
\<close>

definition wasabi_cj :: GraphNode where
  "wasabi_cj = (GraphNode_init ''wasabi_cj'')
     \<lparr>outputs := replicate 10 (TxOutput_init (Some ''addr'') 10000000 P2WPKH)
                 @ replicate 5 (TxOutput_init (Some ''change'') 150000 P2WPKH)\<rparr>"

section \<open>core/graph.py\<close>

definition MEMPOOL_BASE :: string where
  "MEMPOOL_BASE = ''https://mempool.space/api''"

definition BLOCKSTREAM_BASE :: string where
  "BLOCKSTREAM_BASE = ''https://blockstream.info/api''"

subsection \<open>The target patterns\<close>

text \<open>The character classes \<open>[0-9a-fA-F]\<close> and \<open>[a-zA-Z0-9]\<close>, written out.\<close>

definition hex_chars :: string where
  "hex_chars = ''0123456789abcdefABCDEF''"

definition alnum_chars :: string where
  "alnum_chars = ''abcdefghijklmnopqrstuvwxyzABCDEFGHIJKLMNOPQRSTUVWXYZ0123456789''"

text \<open>
  \<open>re.match\<close> of a pattern \<open>^body$\<close>: without the MULTILINE flag \<open>$\<close> matches at the
  end of the string and also just before a newline that ends it.
\<close>

definition re_dollar :: "(string \<Rightarrow> bool) \<Rightarrow> string \<Rightarrow> bool" where
  "re_dollar body s = (body s \<or> (s \<noteq> [] \<and> last s = CHR 0x0A \<and> body (butlast s)))"

text \<open>\<open>^[0-9a-fA-F]{64}$\<close>\<close>

definition TXID_PATTERN :: "string \<Rightarrow> bool" where
  "TXID_PATTERN s =
     re_dollar (\<lambda>t. length t = 64 \<and> list_all (\<lambda>c. c \<in> set hex_chars) t) s"

text \<open>\<open>^(1|3|bc1)[a-zA-Z0-9]{25,62}$\<close>: one of the three prefixes, then 25 to 62 characters of the class.\<close>

definition ADDRESS_PATTERN :: "string \<Rightarrow> bool" where
  "ADDRESS_PATTERN s =
     re_dollar
       (\<lambda>t. list_ex
          (\<lambda>p. take (length p) t = p
             \<and> (let r = drop (length p) t
                in 25 \<le> length r \<and> length r \<le> 62 \<and> list_all (\<lambda>c. c \<in> set alnum_chars) r))
          [''1'', ''3'', ''bc1'']) s"

text \<open>
  \<open>str.strip()\<close>: the characters with \<open>isspace()\<close> among the code points below 256 are
  removed from both ends.
\<close>

definition whitespace :: string where
  "whitespace =
     [CHR 0x09, CHR 0x0A, CHR 0x0B, CHR 0x0C, CHR 0x0D, CHR 0x1C, CHR 0x1D, CHR 0x1E,
      CHR 0x1F, CHR 0x20, CHR 0x85, CHR 0xA0]"

definition strip :: "string \<Rightarrow> string" where
  "strip s =
     rev (dropWhile (\<lambda>c. c \<in> set whitespace) (rev (dropWhile (\<lambda>c. c \<in> set whitespace) s)))"

subsection \<open>The providers\<close>

text \<open>
  What one \<open>client.get\<close> gives: a response with its status code and its decoded
  \<open>json()\<close> (\<open>None\<close> when decoding it, or reading it the way the caller does, raises),
  a timeout, or any other exception.
\<close>

datatype 'a http_result = Response int "'a option" | TimeoutException | OtherException

datatype json =
    JNull | JBool bool | JNum real | JStr string | JArr "json list" | JObj "(string \<times> json) list"

type_synonym tx_data = "(string \<times> json) list"

datatype event = Get string | Sleep real

text \<open>
  The network, as the code meets it: for every URL the answers to its successive
  requests (a URL with no answer left refuses the connection), and the trace of the
  requests and sleeps made so far.  A transaction is a JSON object, the outspends a JSON
  list, the transactions of an address the list of their \<open>txid\<close> fields.  The rate
  limiters only delay a request and are left out.
\<close>

record world =
  tx_endpoint :: "string \<Rightarrow> tx_data http_result list"
  outspends_endpoint :: "string \<Rightarrow> json list http_result list"
  address_endpoint :: "string \<Rightarrow> string list http_result list"
  trace :: "event list"

definition next_answer :: "'a http_result list \<Rightarrow> 'a http_result \<times> 'a http_result list" where
  "next_answer answers =
     (case answers of [] \<Rightarrow> (OtherException, []) | r # rest \<Rightarrow> (r, rest))"

definition get_tx :: "world \<Rightarrow> string \<Rightarrow> tx_data http_result \<times> world" where
  "get_tx w url =
     (let (r, rest) = next_answer (tx_endpoint w url)
      in (r, w\<lparr>tx_endpoint := (tx_endpoint w)(url := rest), trace := trace w @ [Get url]\<rparr>))"

definition get_outspends :: "world \<Rightarrow> string \<Rightarrow> json list http_result \<times> world" where
  "get_outspends w url =
     (let (r, rest) = next_answer (outspends_endpoint w url)
      in (r, w\<lparr>outspends_endpoint := (outspends_endpoint w)(url := rest),
               trace := trace w @ [Get url]\<rparr>))"

definition get_address :: "world \<Rightarrow> string \<Rightarrow> string list http_result \<times> world" where
  "get_address w url =
     (let (r, rest) = next_answer (address_endpoint w url)
      in (r, w\<lparr>address_endpoint := (address_endpoint w)(url := rest),
               trace := trace w @ [Get url]\<rparr>))"

text \<open>
  \<open>resp.raise_for_status(); return resp.json()\<close> inside a \<open>try\<close> whose handlers return
  \<open>None\<close>: httpx raises \<open>HTTPStatusError\<close> unless the status is 2xx.
\<close>

definition status_ok :: "int \<Rightarrow> bool" where
  "status_ok status = (200 \<le> status \<and> status < 300)"

definition checked_json :: "'a http_result \<Rightarrow> 'a option" where
  "checked_json resp =
     (case resp of
        Response status body \<Rightarrow> if status_ok status then body else None
      | TimeoutException \<Rightarrow> None
      | OtherException \<Rightarrow> None)"

definition fetch_tx :: "world \<Rightarrow> string \<Rightarrow> string \<Rightarrow> tx_data option \<times> world" where
  "fetch_tx w base_url txid' =
     (let url = base_url @ ''/tx/'' @ txid';
          (resp, w1) = get_tx w url
      in case resp of
           Response status body \<Rightarrow>
             if status = 404 then (None, w1)
             else if status = 429 then
               (let w2 = w1\<lparr>trace := trace w1 @ [Sleep 2.0]\<rparr>;
                    (resp2, w3) = get_tx w2 url
                in (checked_json resp2, w3))
             else (checked_json resp, w1)
         | TimeoutException \<Rightarrow> (None, w1)
         | OtherException \<Rightarrow> (None, w1))"

definition fetch_tx_with_fallback :: "world \<Rightarrow> string \<Rightarrow> tx_data option \<times> world" where
  "fetch_tx_with_fallback w txid' =
     (let (data, w1) = fetch_tx w MEMPOOL_BASE txid'
      in case data of
           Some d \<Rightarrow> (Some d, w1)
         | None \<Rightarrow> fetch_tx w1 BLOCKSTREAM_BASE txid')"

definition fetch_outspends :: "world \<Rightarrow> string \<Rightarrow> string \<Rightarrow> json list option \<times> world" where
  "fetch_outspends w base_url txid' =
     (let url = base_url @ ''/tx/'' @ txid' @ ''/outspends'';
          (resp, w1) = get_outspends w url
      in case resp of
           Response status body \<Rightarrow>
             if status = 404 then (None, w1)
             else (checked_json resp, w1)
         | TimeoutException \<Rightarrow> (None, w1)
         | OtherException \<Rightarrow> (None, w1))"

definition fetch_outspends_with_fallback :: "world \<Rightarrow> string \<Rightarrow> json list option \<times> world" where
  "fetch_outspends_with_fallback w txid' =
     (let (data, w1) = fetch_outspends w MEMPOOL_BASE txid'
      in case data of
           Some d \<Rightarrow> (Some d, w1)
         | None \<Rightarrow> fetch_outspends w1 BLOCKSTREAM_BASE txid')"

definition fetch_address_txids :: "world \<Rightarrow> string \<Rightarrow> nat \<Rightarrow> string list \<times> world" where
  "fetch_address_txids w address' limit =
     (let (resp, w1) = get_address w (MEMPOOL_BASE @ ''/address/'' @ address' @ ''/txs'')
      in case checked_json resp of
           Some txs \<Rightarrow> (take limit txs, w1)
         | None \<Rightarrow>
             (let (resp2, w2) =
                    get_address w1 (BLOCKSTREAM_BASE @ ''/address/'' @ address' @ ''/txs'')
              in case checked_json resp2 of
                   Some txs \<Rightarrow> (take limit txs, w2)
                 | None \<Rightarrow> ([], w2)))"

subsection \<open>Target resolution\<close>

text \<open>\<open>_resolve_target\<close>; \<open>tx if tx else None\<close> asks for a non-empty object.\<close>

definition resolve_target :: "world \<Rightarrow> string \<Rightarrow> string option \<times> world" where
  "resolve_target w target =
     (let target' = strip target
      in if TXID_PATTERN target' then
           (let (tx, w1) = fetch_tx_with_fallback w target'
            in ((case tx of Some d \<Rightarrow> if d \<noteq> [] then Some target' else None | None \<Rightarrow> None), w1))
         else if ADDRESS_PATTERN target' then
           (let (txids, w1) = fetch_address_txids w target' 25
            in ((case txids of [] \<Rightarrow> None | first # rest \<Rightarrow> Some first), w1))
         else (None, w))"

text \<open>
  \<open>async_bfs\<close> up to the start of the traversal: either the target does not resolve
  and the graph with the warning is returned, or the worker pool starts from the root
  transaction.  The pool itself is concurrent and is not modelled.
\<close>

datatype bfs_start = Unresolved GraphResult | Traverse string

definition async_bfs :: "world \<Rightarrow> string \<Rightarrow> bfs_start \<times> world" where
  "async_bfs w target =
     (let (root_txid', w1) = resolve_target w target
      in case root_txid' of
           None \<Rightarrow>
             (let result = GraphResult_init target []
              in (Unresolved
                    (result\<lparr>warnings := warnings result @ [''Could not resolve target: '' @ target]\<rparr>),
                  w1))
         | Some r \<Rightarrow> (Traverse r, w1))"

text \<open>Worlds and targets of the scenarios below.\<close>

definition silent_world :: world where
  "silent_world =
     \<lparr>tx_endpoint = (\<lambda>url. []), outspends_endpoint = (\<lambda>url. []),
      address_endpoint = (\<lambda>url. []), trace = []\<rparr>"

definition long_address :: string where
  "long_address = CHR ''1'' # replicate 62 (CHR ''a'')"

definition long_address_world :: world where
  "long_address_world =
     silent_world\<lparr>address_endpoint :=
       (address_endpoint silent_world)
         (MEMPOOL_BASE @ ''/address/'' @ long_address @ ''/txs''
            := [Response 200 (Some [''ab'', ''cd''])])\<rparr>"

definition throttled_outspends_world :: world where
  "throttled_outspends_world =
     silent_world\<lparr>outspends_endpoint :=
       (outspends_endpoint silent_world)
         (MEMPOOL_BASE @ ''/tx/ab/outspends''
            := [Response 429 None, Response 200 (Some [])])\<rparr>"

definition throttled_tx_world :: world where
  "throttled_tx_world =
     silent_world\<lparr>tx_endpoint :=
       (tx_endpoint silent_world)
         (MEMPOOL_BASE @ ''/tx/ab''
            := [Response 429 None, Response 200 (Some [(''txid'', JStr ''ab'')])])\<rparr>"

section \<open>core/attribution.py\<close>

definition DEFAULT_WE_LIMIT :: int where
  "DEFAULT_WE_LIMIT = 200"

text \<open>
  The loaded \<open>EntityDatabase\<close>: the rows of the SQLite table by address (entity,
  category, confidence; the last two may be NULL), or the dict of the JSON fallback
  (entity name, category).
\<close>

datatype EntityDatabase =
    Sqlite "string \<rightharpoonup> string \<times> string option \<times> string option"
  | Fallback "string \<rightharpoonup> string \<times> string"

text \<open>Python's \<open>x or default\<close> on an optional string.\<close>

fun str_or :: "string option \<Rightarrow> string \<Rightarrow> string" where
  "str_or None d = d"
| "str_or (Some s) d = (if s = [] then d else s)"

fun lookup :: "EntityDatabase \<Rightarrow> string \<Rightarrow> AttributionResult option" where
  "lookup (Sqlite rows) address' =
     (case rows address' of
        Some (entity', category', confidence') \<Rightarrow>
          Some \<lparr>AttributionResult.address = address',
                entity = entity',
                source = ''local_db'',
                category = str_or category' [],
                AttributionResult.confidence = str_or confidence' ''confirmed''\<rparr>
      | None \<Rightarrow> None)"
| "lookup (Fallback entries) address' =
     (case entries address' of
        Some (name', category') \<Rightarrow>
          Some \<lparr>AttributionResult.address = address',
                entity = name',
                source = ''local_db'',
                category = category',
                AttributionResult.confidence = ''confirmed''\<rparr>
      | None \<Rightarrow> None)"

text \<open>
  \<open>address_nodes.setdefault(a, []).append(t)\<close> on a dict kept as an association list in
  insertion order, and \<open>address_nodes[a]\<close> (asked only for keys of the dict).
\<close>

fun setdefault_append :: "string \<Rightarrow> string \<Rightarrow> (string \<times> string list) list \<Rightarrow> (string \<times> string list) list" where
  "setdefault_append a t [] = [(a, [t])]"
| "setdefault_append a t ((k, ts) # rest) =
     (if k = a then (k, ts @ [t]) # rest else (k, ts) # setdefault_append a t rest)"

definition txids_of :: "(string \<times> string list) list \<Rightarrow> string \<Rightarrow> string list" where
  "txids_of address_nodes a = (case map_of address_nodes a of Some ts \<Rightarrow> ts | None \<Rightarrow> [])"

text \<open>The addresses a node mentions, inputs first, as the two loops of the pre-pass meet them.\<close>

definition node_addresses :: "GraphNode \<Rightarrow> string list" where
  "node_addresses node =
     map (\<lambda>inp. the (TxInput.address inp))
       (filter (\<lambda>inp. truthy_str (TxInput.address inp)) (inputs node))
     @ map (\<lambda>out. the (TxOutput.address out))
       (filter (\<lambda>out. truthy_str (TxOutput.address out)) (outputs node))"

definition build_address_nodes :: "GraphResult \<Rightarrow> (string \<times> string list) list" where
  "build_address_nodes graph =
     fold (\<lambda>node address_nodes.
             fold (\<lambda>a. setdefault_append a (txid node)) (node_addresses node) address_nodes)
       (map snd (nodes graph)) []"

text \<open>\<open>_apply_attribution\<close>\<close>

definition apply_attribution :: "GraphResult \<Rightarrow> string list \<Rightarrow> string \<Rightarrow> string \<Rightarrow> GraphResult" where
  "apply_attribution graph txids address' entity' =
     fold (\<lambda>t g.
             if map_of (nodes g) t \<noteq> None
             then g\<lparr>nodes :=
                    map (\<lambda>(k, n).
                           if k = t
                           then (k, n\<lparr>attributed_entities :=
                                       (attributed_entities n)(address' \<mapsto> entity')\<rparr>)
                           else (k, n))
                      (nodes g)\<rparr>
             else g)
       txids graph"

text \<open>\<open>d[k] = d.get(k, 0) + 1\<close>\<close>

definition dict_incr :: "(string \<rightharpoonup> int) \<Rightarrow> string \<Rightarrow> (string \<rightharpoonup> int)" where
  "dict_incr d k = d(k \<mapsto> (case d k of Some c \<Rightarrow> c | None \<Rightarrow> 0) + 1)"

text \<open>
  The variables of \<open>attribute_graph\<close> that its loops update (\<open>l_resolved\<close> is the dict
  \<open>resolved\<close>), and with them the addresses sent to the cluster oracle so far.
\<close>

record attribution_locals =
  l_graph :: GraphResult
  l_results :: "AttributionResult list"
  l_resolved :: "string \<rightharpoonup> AttributionResult"
  l_by_source :: "string \<rightharpoonup> int"
  l_by_category :: "string \<rightharpoonup> int"
  l_queried :: "string list"

definition record_result :: "(string \<times> string list) list \<Rightarrow> string \<Rightarrow> AttributionResult \<Rightarrow> string \<Rightarrow> bool \<Rightarrow> attribution_locals \<Rightarrow> attribution_locals" where
  "record_result address_nodes addr ar source_key count_category st =
     st\<lparr>l_resolved := (l_resolved st)(addr \<mapsto> ar),
        l_results := l_results st @ [ar],
        l_graph := apply_attribution (l_graph st) (txids_of address_nodes addr) addr (entity ar),
        l_by_source := dict_incr (l_by_source st) source_key,
        l_by_category :=
          (if count_category \<and> category ar \<noteq> []
           then dict_incr (l_by_category st) (category ar)
           else l_by_category st)\<rparr>"

text \<open>The bodies of the three loops, Tier 1 to Tier 3.\<close>

definition tier1_step :: "EntityDatabase \<Rightarrow> (string \<times> string list) list \<Rightarrow> string \<Rightarrow> attribution_locals \<Rightarrow> attribution_locals" where
  "tier1_step db address_nodes addr st =
     (case lookup db addr of
        Some result \<Rightarrow> record_result address_nodes addr result ''local_db'' True st
      | None \<Rightarrow> st)"

text \<open>
  \<open>query_we addr\<close> is what \<open>_query_walletexplorer\<close> returns for the address: the label,
  or \<open>None\<close> when there is none or the request fails.
\<close>

definition tier2_step :: "(string \<Rightarrow> string option) \<Rightarrow> (string \<times> string list) list \<Rightarrow> string \<Rightarrow> attribution_locals \<Rightarrow> attribution_locals" where
  "tier2_step query_we address_nodes addr st =
     (let st1 = st\<lparr>l_queried := l_queried st @ [addr]\<rparr>;
          entity' = query_we addr
      in if truthy_str entity'
         then record_result address_nodes addr
                \<lparr>AttributionResult.address = addr,
                 entity = the entity',
                 source = ''walletexplorer'',
                 category = [],
                 AttributionResult.confidence = ''cluster''\<rparr>
                ''walletexplorer'' False st1
         else st1)"

text \<open>\<open>query_arkham addr key\<close> is what \<open>_query_arkham\<close> returns.\<close>

definition tier3_step :: "(string \<Rightarrow> string \<Rightarrow> AttributionResult option) \<Rightarrow> string \<Rightarrow> (string \<times> string list) list \<Rightarrow> string \<Rightarrow> attribution_locals \<Rightarrow> attribution_locals" where
  "tier3_step query_arkham arkham_key address_nodes addr st =
     (case query_arkham addr arkham_key of
        Some ar \<Rightarrow> record_result address_nodes addr ar ''arkham'' True st
      | None \<Rightarrow> st)"

text \<open>The slice \<open>xs[:n]\<close> for an int \<open>n\<close>; a negative \<open>n\<close> counts from the end.\<close>

definition slice_to :: "int \<Rightarrow> 'a list \<Rightarrow> 'a list" where
  "slice_to n xs = (if 0 \<le> n then take (nat n) xs else take (nat (int (length xs) + n)) xs)"

definition we_cap_warning :: "int \<Rightarrow> nat \<Rightarrow> string" where
  "we_cap_warning we_limit n_unmatched =
     ''WalletExplorer: queried '' @ str_int we_limit @ '' of '' @ str_nat n_unmatched
     @ '' unattributed addresses (capped for speed). Use --thorough to check all.''"

text \<open>
  \<open>attribute_graph\<close>, given the loaded database and the two oracles; it returns the
  graph and, beside it, the addresses sent to the cluster oracle, in order.  No
  progress callback is passed.
\<close>

definition attribute_graph ::
  "EntityDatabase \<Rightarrow> (string \<Rightarrow> string option) \<Rightarrow> (string \<Rightarrow> string \<Rightarrow> AttributionResult option)
   \<Rightarrow> GraphResult \<Rightarrow> bool \<Rightarrow> int option \<Rightarrow> string option \<Rightarrow> GraphResult \<times> string list" where
  "attribute_graph db query_we query_arkham graph skip_walletexplorer we_limit arkham_key =
     (let address_nodes = build_address_nodes graph;
          all_addresses = map fst address_nodes;
          total = int (length all_addresses);
          st0 = \<lparr>l_graph = graph, l_results = [], l_resolved = Map.empty,
                 l_by_source = Map.empty, l_by_category = Map.empty, l_queried = []\<rparr>;
          st1 = fold (tier1_step db address_nodes) all_addresses st0;
          unmatched = filter (\<lambda>a. l_resolved st1 a = None) all_addresses;
          st2 =
            (if \<not> skip_walletexplorer then
               (let to_query =
                      (case we_limit of None \<Rightarrow> unmatched | Some l \<Rightarrow> slice_to l unmatched);
                    warned =
                      (case we_limit of
                         None \<Rightarrow> st1
                       | Some l \<Rightarrow>
                           if int (length unmatched) > l
                           then st1\<lparr>l_graph := (l_graph st1)
                                  \<lparr>warnings := warnings (l_graph st1)
                                     @ [we_cap_warning l (length unmatched)]\<rparr>\<rparr>
                           else st1);
                    queried = fold (tier2_step query_we address_nodes) to_query warned
                in queried\<lparr>l_graph := (l_graph queried)
                     \<lparr>we_addresses_queried := int (length to_query),
                      we_addresses_total_unmatched := int (length unmatched)\<rparr>\<rparr>)
             else
               st1\<lparr>l_graph := (l_graph st1)
                     \<lparr>we_addresses_queried := 0,
                      we_addresses_total_unmatched := int (length unmatched)\<rparr>\<rparr>);
          st3 =
            (if truthy_str arkham_key then
               (let still_unmatched = filter (\<lambda>a. l_resolved st2 a = None) all_addresses
                in fold (tier3_step query_arkham (the arkham_key) address_nodes)
                     still_unmatched st2)
             else st2);
          sources_used' =
            [''local_db'']
            @ (if \<not> skip_walletexplorer then [''walletexplorer''] else [])
            @ (if truthy_str arkham_key then [''arkham''] else []);
          attributed_count' = int (card (dom (l_resolved st3)))
      in ((l_graph st3)
            \<lparr>attribution_results := l_results st3,
             attribution_summary :=
               Some \<lparr>AttributionSummary.total_addresses = total,
                     attributed_count = attributed_count',
                     by_source = l_by_source st3,
                     by_category = l_by_category st3,
                     coverage_rate = of_int attributed_count' / of_int (max total 1),
                     sources_used = sources_used'\<rparr>\<rparr>,
          l_queried st3))"

text \<open>A graph of one transaction with three addressed outputs, and an empty database.\<close>

definition three_address_graph :: GraphResult where
  "three_address_graph =
     (GraphResult_init ''tx0'' ''tx0'')
       \<lparr>nodes :=
          [(''tx0'', (GraphNode_init ''tx0'')
              \<lparr>outputs := [TxOutput_init (Some ''a1'') 5000 P2WPKH,
                            TxOutput_init (Some ''a2'') 6000 P2WPKH,
                            TxOutput_init (Some ''a3'') 7000 P2WPKH]\<rparr>)],
        addresses_seen := {''a1'', ''a2'', ''a3''}\<rparr>"

definition empty_db :: EntityDatabase where
  "empty_db = Fallback Map.empty"

text \<open>Oracles that know no address.\<close>

definition no_label :: "string \<Rightarrow> string option" where
  "no_label addr = None"

definition no_arkham :: "string \<Rightarrow> string \<Rightarrow> AttributionResult option" where
  "no_arkham addr key = None"

section \<open>The script-type mapping\<close>

lemma from_esplora_known:
  "from_esplora ''p2pkh'' = P2PKH"
  "from_esplora ''p2sh'' = P2SH"
  "from_esplora ''v0_p2wpkh'' = P2WPKH"
  "from_esplora ''v0_p2wsh'' = P2WSH"
  "from_esplora ''v1_p2tr'' = P2TR"
  by (simp_all add: from_esplora_def esplora_mapping_def)

lemma from_esplora_other:
  assumes "t \<notin> {''p2pkh'', ''p2sh'', ''v0_p2wpkh'', ''v0_p2wsh'', ''v1_p2tr''}"
  shows "from_esplora t = UNKNOWN"
  using assms by (simp add: from_esplora_def esplora_mapping_def)

text \<open>
  Claim C9.  The mapping from provider tag strings is a total function; on the five
  known tags \<open>p2pkh\<close>, \<open>p2sh\<close>, \<open>v0_p2wpkh\<close>, \<open>v0_p2wsh\<close>, \<open>v1_p2tr\<close> it is injective, the
  five images being five distinct variants other than \<open>UNKNOWN\<close>, and every other
  string is mapped to \<open>UNKNOWN\<close>.
\<close>

theorem from_esplora_injective_on_known_else_unknown:
  "inj_on from_esplora {''p2pkh'', ''p2sh'', ''v0_p2wpkh'', ''v0_p2wsh'', ''v1_p2tr''}
   \<and> distinct (map from_esplora [''p2pkh'', ''p2sh'', ''v0_p2wpkh'', ''v0_p2wsh'', ''v1_p2tr''])
   \<and> UNKNOWN \<notin> from_esplora ` {''p2pkh'', ''p2sh'', ''v0_p2wpkh'', ''v0_p2wsh'', ''v1_p2tr''}
   \<and> (\<forall>t. t \<notin> {''p2pkh'', ''p2sh'', ''v0_p2wpkh'', ''v0_p2wsh'', ''v1_p2tr''}
          \<longrightarrow> from_esplora t = UNKNOWN)"
proof (intro conjI allI impI)
  show "inj_on from_esplora {''p2pkh'', ''p2sh'', ''v0_p2wpkh'', ''v0_p2wsh'', ''v1_p2tr''}"
    by (simp add: from_esplora_known)
  show "distinct (map from_esplora [''p2pkh'', ''p2sh'', ''v0_p2wpkh'', ''v0_p2wsh'', ''v1_p2tr''])"
    by (simp add: from_esplora_known)
  show "UNKNOWN \<notin> from_esplora ` {''p2pkh'', ''p2sh'', ''v0_p2wpkh'', ''v0_p2wsh'', ''v1_p2tr''}"
    by (simp add: from_esplora_known)
next
  fix t :: string
  assume "t \<notin> {''p2pkh'', ''p2sh'', ''v0_p2wpkh'', ''v0_p2wsh'', ''v1_p2tr''}"
  then show "from_esplora t = UNKNOWN"
    by (rule from_esplora_other)
qed

theorem from_esplora_injective_on_known_else_unknown_witness:
  "''v2_future'' \<notin> {''p2pkh'', ''p2sh'', ''v0_p2wpkh'', ''v0_p2wsh'', ''v1_p2tr''}
   \<and> from_esplora ''v2_future'' = UNKNOWN
   \<and> from_esplora ''v1_p2tr'' \<noteq> from_esplora ''v0_p2wsh''"
proof -
  note main = from_esplora_injective_on_known_else_unknown
  have out: "''v2_future'' \<notin> {''p2pkh'', ''p2sh'', ''v0_p2wpkh'', ''v0_p2wsh'', ''v1_p2tr''}"
    by simp
  have other: "''v2_future'' \<notin> {''p2pkh'', ''p2sh'', ''v0_p2wpkh'', ''v0_p2wsh'', ''v1_p2tr''}
          \<longrightarrow> from_esplora ''v2_future'' = UNKNOWN"
    by (rule main [THEN conjunct2, THEN conjunct2, THEN conjunct2, THEN spec])
  have inj: "inj_on from_esplora {''p2pkh'', ''p2sh'', ''v0_p2wpkh'', ''v0_p2wsh'', ''v1_p2tr''}"
    by (rule main [THEN conjunct1])
  have ne: "from_esplora ''v1_p2tr'' \<noteq> from_esplora ''v0_p2wsh''"
  proof
    assume "from_esplora ''v1_p2tr'' = from_esplora ''v0_p2wsh''"
    with inj have "''v1_p2tr'' = ''v0_p2wsh''"
      by (rule inj_onD) simp_all
    then show False by simp
  qed
  from other out have "from_esplora ''v2_future'' = UNKNOWN" by (rule mp)
  with out ne show ?thesis by (intro conjI)
qed

section \<open>Rounding to a double\<close>

lemma round_half_even_floor_le: "\<lfloor>x\<rfloor> \<le> round_half_even x"
  unfolding round_half_even_def Let_def by auto

lemma round_half_even_le_floor_Suc: "round_half_even x \<le> \<lfloor>x\<rfloor> + 1"
  unfolding round_half_even_def Let_def by auto

lemma round_half_even_mono:
  assumes "x \<le> y"
  shows "round_half_even x \<le> round_half_even y"
proof (cases "\<lfloor>x\<rfloor> = \<lfloor>y\<rfloor>")
  case True
  with assms show ?thesis
    unfolding round_half_even_def Let_def by auto
next
  case False
  moreover from assms have "\<lfloor>x\<rfloor> \<le> \<lfloor>y\<rfloor>" by (rule floor_mono)
  ultimately have "\<lfloor>x\<rfloor> + 1 \<le> \<lfloor>y\<rfloor>" by simp
  with round_half_even_le_floor_Suc [of x] round_half_even_floor_le [of y]
  show ?thesis by linarith
qed

lemma round_half_even_of_int: "round_half_even (of_int k) = k"
  by (simp add: round_half_even_def)

lemma round_half_even_nonneg: "0 \<le> x \<Longrightarrow> 0 \<le> round_half_even x"
  using round_half_even_mono [of 0 x] round_half_even_of_int [of 0] by simp

lemma two_powi_nonneg: "0 \<le> n \<Longrightarrow> (2::real) powi n = 2 ^ nat n"
  by (simp add: power_int_def)

lemma two_powi_neg: "0 \<le> n \<Longrightarrow> (2::real) powi (- n) = 1 / 2 ^ nat n"
  by (simp add: power_int_def field_simps)

lemma two_powi_add: "(2::real) powi (m + n) = 2 powi m * 2 powi n"
  by (rule power_int_add) simp

lemma two_powi_pos: "0 < (2::real) powi n"
  by simp

lemma two_powi_less_imp: "(2::real) powi m < 2 powi n \<Longrightarrow> m < n"
proof (rule ccontr)
  assume a: "2 powi m < (2::real) powi n" and "\<not> m < n"
  then have "n \<le> m" by simp
  then have "(2::real) powi n \<le> 2 powi m" by (rule power_int_increasing) simp
  with a show False by simp
qed

lemma binade_bounds:
  assumes "0 < y"
  shows "2 powi (binade y) \<le> y" and "y < 2 powi (binade y + 1)"
proof -
  have "2 powi (binade y) \<le> y \<and> y < 2 powi (binade y + 1)"
  proof (cases "1 \<le> y")
    case True
    define n where "n = \<lfloor>y\<rfloor>"
    define b where "b = bitlen n"
    from True have n: "0 < n" by (simp add: n_def)
    from bitlen_bounds [OF n] have lo: "2 ^ nat (b - 1) \<le> n" and hi: "n < 2 ^ nat b"
      by (simp_all add: b_def)
    from n have b1: "1 \<le> b" unfolding b_def by (auto simp: bitlen_alt_def)
    have e: "binade y = b - 1" using True by (simp add: binade_def n_def b_def)
    have "(2::real) powi (b - 1) = of_int (2 ^ nat (b - 1))"
      using b1 by (simp add: two_powi_nonneg)
    also have "\<dots> \<le> of_int n" using lo by (simp only: of_int_le_iff)
    also have "\<dots> \<le> y" by (simp add: n_def)
    finally have 1: "2 powi (b - 1) \<le> y" .
    from hi have "n + 1 \<le> 2 ^ nat b" by simp
    then have "(of_int (n + 1) :: real) \<le> of_int (2 ^ nat b)" by (simp only: of_int_le_iff)
    moreover have "y < of_int (n + 1)" by (simp add: n_def)
    ultimately have "y < of_int (2 ^ nat b)" by simp
    also have "\<dots> = 2 powi b" using b1 by (simp add: two_powi_nonneg)
    finally have 2: "y < 2 powi b" .
    from 1 2 show ?thesis by (simp add: e)
  next
    case False
    define z where "z = 1 / y"
    define n where "n = \<lceil>z\<rceil> - 1"
    define b where "b = bitlen n"
    from False assms have z1: "1 < z" by (simp add: z_def)
    then have "1 < \<lceil>z\<rceil>" by (simp add: less_ceiling_iff)
    then have n: "0 < n" by (simp add: n_def)
    have nz: "of_int n < z" unfolding n_def by linarith
    have zn: "z \<le> of_int (n + 1)" unfolding n_def by simp
    from bitlen_bounds [OF n] have lo: "2 ^ nat (b - 1) \<le> n" and hi: "n < 2 ^ nat b"
      by (simp_all add: b_def)
    from n have b1: "1 \<le> b" unfolding b_def by (auto simp: bitlen_alt_def)
    have e: "binade y = - b" using False by (simp add: binade_def n_def b_def z_def)
    have y: "y = 1 / z" using assms by (simp add: z_def)
    from hi have "n + 1 \<le> 2 ^ nat b" by simp
    then have "(of_int (n + 1) :: real) \<le> of_int (2 ^ nat b)" by (simp only: of_int_le_iff)
    with zn have "z \<le> 2 ^ nat b" by simp
    then have "1 / 2 ^ nat b \<le> 1 / z" using z1 by (simp add: frac_le)
    then have 1: "2 powi (- b) \<le> y" using b1 by (simp add: two_powi_neg y)
    from lo have "(of_int (2 ^ nat (b - 1)) :: real) \<le> of_int n" by (simp only: of_int_le_iff)
    then have "(2::real) ^ nat (b - 1) \<le> of_int n" by simp
    with nz have "2 ^ nat (b - 1) < z" by linarith
    then have "1 / z < 1 / 2 ^ nat (b - 1)" by (simp add: frac_less2)
    moreover have "(2::real) powi (- b + 1) = 1 / 2 ^ nat (b - 1)"
      using two_powi_neg [of "b - 1"] b1 by simp
    ultimately have 2: "y < 2 powi (- b + 1)" by (simp add: y)
    from 1 2 show ?thesis by (simp add: e)
  qed
  then show "2 powi (binade y) \<le> y" and "y < 2 powi (binade y + 1)" by simp_all
qed

lemma binade_unique:
  assumes "0 < y" and "2 powi k \<le> y" and "y < 2 powi (k + 1)"
  shows "binade y = k"
proof -
  from binade_bounds(1) [OF assms(1)] assms(3) have "2 powi binade y < (2::real) powi (k + 1)"
    by simp
  then have 1: "binade y < k + 1" by (rule two_powi_less_imp)
  from binade_bounds(2) [OF assms(1)] assms(2) have "2 powi k < (2::real) powi (binade y + 1)"
    by simp
  then have 2: "k < binade y + 1" by (rule two_powi_less_imp)
  from 1 2 show ?thesis by simp
qed

lemma binade_mono:
  assumes "0 < x" and "x \<le> y"
  shows "binade x \<le> binade y"
proof -
  from assms have y: "0 < y" by simp
  from binade_bounds(1) [OF assms(1)] assms(2) binade_bounds(2) [OF y]
  have "2 powi binade x < (2::real) powi (binade y + 1)" by simp
  then have "binade x < binade y + 1" by (rule two_powi_less_imp)
  then show ?thesis by simp
qed

lemma f64_zero: "f64 0 = 0"
  by (simp add: f64_def)

lemma f64_pos_eq:
  "0 < x \<Longrightarrow>
     f64 x = of_int (round_half_even (x * 2 powi (52 - binade x))) * 2 powi (binade x - 52)"
  by (simp add: f64_def Let_def)

lemma scaled_bounds:
  assumes "0 < x"
  shows "2 ^ 52 \<le> x * 2 powi (52 - binade x)" and "x * 2 powi (52 - binade x) < 2 ^ 53"
proof -
  have p: "0 < (2::real) powi (52 - binade x)" by simp
  have "(2::real) ^ 52 = 2 powi (binade x + (52 - binade x))" by simp
  also have "\<dots> = 2 powi binade x * 2 powi (52 - binade x)" by (rule two_powi_add)
  also have "\<dots> \<le> x * 2 powi (52 - binade x)"
    using binade_bounds(1) [OF assms] p by (simp only: mult_le_cancel_right_pos)
  finally show "2 ^ 52 \<le> x * 2 powi (52 - binade x)" .
  have "x * 2 powi (52 - binade x) < 2 powi (binade x + 1) * 2 powi (52 - binade x)"
    using binade_bounds(2) [OF assms] p by (simp only: mult_less_cancel_right_pos)
  also have "\<dots> = 2 powi ((binade x + 1) + (52 - binade x))" by (rule two_powi_add [symmetric])
  also have "\<dots> = 2 ^ 53" by simp
  finally show "x * 2 powi (52 - binade x) < 2 ^ 53" .
qed

lemma mantissa_bounds:
  assumes "0 < x"
  shows "2 ^ 52 \<le> round_half_even (x * 2 powi (52 - binade x))"
    and "round_half_even (x * 2 powi (52 - binade x)) \<le> 2 ^ 53"
proof -
  have "round_half_even (of_int (2 ^ 52)) \<le> round_half_even (x * 2 powi (52 - binade x))"
    using scaled_bounds(1) [OF assms] by (intro round_half_even_mono) simp
  then show "2 ^ 52 \<le> round_half_even (x * 2 powi (52 - binade x))"
    by (simp only: round_half_even_of_int)
  have "round_half_even (x * 2 powi (52 - binade x)) \<le> round_half_even (of_int (2 ^ 53))"
    using scaled_bounds(2) [OF assms] by (intro round_half_even_mono) simp
  then show "round_half_even (x * 2 powi (52 - binade x)) \<le> 2 ^ 53"
    by (simp only: round_half_even_of_int)
qed

lemma f64_bounds:
  assumes "0 < x"
  shows "2 powi binade x \<le> f64 x" and "f64 x \<le> 2 powi (binade x + 1)"
proof -
  have p: "0 < (2::real) powi (binade x - 52)" by simp
  have "(2::real) powi binade x = 2 powi (52 + (binade x - 52))" by simp
  also have "\<dots> = 2 powi 52 * 2 powi (binade x - 52)" by (rule two_powi_add)
  also have "\<dots> = of_int (2 ^ 52) * 2 powi (binade x - 52)" by simp
  also have "\<dots> \<le> of_int (round_half_even (x * 2 powi (52 - binade x))) * 2 powi (binade x - 52)"
    using mantissa_bounds(1) [OF assms] p
    by (simp only: mult_le_cancel_right_pos of_int_le_iff)
  finally show "2 powi binade x \<le> f64 x" by (simp only: f64_pos_eq [OF assms])
  have "of_int (round_half_even (x * 2 powi (52 - binade x))) * 2 powi (binade x - 52)
      \<le> of_int (2 ^ 53) * (2::real) powi (binade x - 52)"
    using mantissa_bounds(2) [OF assms] p
    by (simp only: mult_le_cancel_right_pos of_int_le_iff)
  also have "\<dots> = 2 powi 53 * 2 powi (binade x - 52)" by simp
  also have "\<dots> = 2 powi (53 + (binade x - 52))" by (rule two_powi_add [symmetric])
  also have "53 + (binade x - 52) = binade x + 1" by simp
  finally show "f64 x \<le> 2 powi (binade x + 1)" by (simp only: f64_pos_eq [OF assms])
qed

lemma f64_pos: "0 < x \<Longrightarrow> 0 < f64 x"
  using f64_bounds(1) [of x] two_powi_pos [of "binade x"] by linarith

lemma f64_nonneg: "0 \<le> x \<Longrightarrow> 0 \<le> f64 x"
  using f64_pos [of x] f64_zero by (cases "x = 0") auto

lemma f64_mono_pos:
  assumes "0 < x" and "x \<le> y"
  shows "f64 x \<le> f64 y"
proof (cases "binade x = binade y")
  case True
  from assms have y: "0 < y" by simp
  have p: "0 \<le> (2::real) powi (52 - binade y)" by simp
  from assms(2) p have "x * 2 powi (52 - binade y) \<le> y * 2 powi (52 - binade y)"
    by (rule mult_right_mono)
  then have "round_half_even (x * 2 powi (52 - binade y))
      \<le> round_half_even (y * 2 powi (52 - binade y))"
    by (rule round_half_even_mono)
  then have "(of_int (round_half_even (x * 2 powi (52 - binade y))) :: real)
      \<le> of_int (round_half_even (y * 2 powi (52 - binade y)))"
    by (simp only: of_int_le_iff)
  then have "of_int (round_half_even (x * 2 powi (52 - binade y))) * 2 powi (binade y - 52)
      \<le> of_int (round_half_even (y * 2 powi (52 - binade y))) * (2::real) powi (binade y - 52)"
    by (rule mult_right_mono) simp
  then show ?thesis
    unfolding f64_pos_eq [OF assms(1)] f64_pos_eq [OF y] True .
next
  case False
  from assms have y: "0 < y" by simp
  from False binade_mono [OF assms] have "binade x + 1 \<le> binade y" by simp
  then have "(2::real) powi (binade x + 1) \<le> 2 powi binade y"
    by (rule power_int_increasing) simp
  with f64_bounds(2) [OF assms(1)] f64_bounds(1) [OF y] show ?thesis by linarith
qed

lemma f64_mono:
  assumes "0 \<le> x" and "x \<le> y"
  shows "f64 x \<le> f64 y"
proof (cases "x = 0")
  case True
  with assms f64_nonneg [of y] show ?thesis by (simp add: f64_zero)
next
  case False
  with assms have "0 < x" by simp
  then show ?thesis using assms(2) by (rule f64_mono_pos)
qed

lemma f64_exact:
  assumes "2 ^ 52 \<le> k" and "k < 2 ^ 53"
  shows "f64 (of_int k * 2 powi j) = of_int k * 2 powi j"
proof -
  define v :: real where "v = of_int k * 2 powi j"
  from assms(1) have k: "(0::real) < of_int k" by simp
  then have v: "0 < v" by (simp add: v_def)
  have lo: "(of_int (2 ^ 52) :: real) \<le> of_int k" using assms(1) by (simp only: of_int_le_iff)
  have hi: "(of_int k :: real) < of_int (2 ^ 53)" using assms(2) by (simp only: of_int_less_iff)
  have "(2::real) powi (j + 52) = 2 powi 52 * 2 powi j" by (simp add: two_powi_add mult.commute)
  also have "\<dots> \<le> v" unfolding v_def using lo by (simp add: mult_right_mono)
  finally have 1: "2 powi (j + 52) \<le> v" .
  have "v < 2 powi 53 * 2 powi j" unfolding v_def using hi by simp
  also have "\<dots> = 2 powi (53 + j)" by (rule two_powi_add [symmetric])
  also have "53 + j = (j + 52) + 1" by simp
  finally have 2: "v < 2 powi ((j + 52) + 1)" .
  from v 1 2 have e: "binade v = j + 52" by (rule binade_unique)
  have "52 - binade v = - j" using e by simp
  then have "v * 2 powi (52 - binade v) = v * 2 powi (- j)" by (simp only:)
  also have "\<dots> = of_int k * (2 powi j * 2 powi (- j))"
    by (simp only: v_def mult.assoc)
  also have "2 powi j * (2::real) powi (- j) = 2 powi (j + - j)" by (rule two_powi_add [symmetric])
  finally have s: "v * 2 powi (52 - binade v) = of_int k" by simp
  have "f64 v = of_int k * 2 powi (binade v - 52)"
    unfolding f64_pos_eq [OF v] s round_half_even_of_int ..
  also have "binade v - 52 = j" using e by simp
  finally show ?thesis unfolding v_def .
qed

lemma f64_idem_pos:
  assumes "0 < x"
  shows "f64 (f64 x) = f64 x"
proof -
  define k where "k = round_half_even (x * 2 powi (52 - binade x))"
  have fx: "f64 x = of_int k * 2 powi (binade x - 52)"
    by (simp only: f64_pos_eq [OF assms] k_def)
  from mantissa_bounds [OF assms] have lo: "2 ^ 52 \<le> k" and hi: "k \<le> 2 ^ 53"
    by (simp_all only: k_def)
  show ?thesis
  proof (cases "k = 2 ^ 53")
    case False
    with hi have "k < 2 ^ 53" by simp
    with lo show ?thesis unfolding fx by (rule f64_exact)
  next
    case True
    have "f64 x = 2 powi 53 * 2 powi (binade x - 52)" by (simp add: fx True)
    also have "\<dots> = 2 powi (53 + (binade x - 52))" by (rule two_powi_add [symmetric])
    also have "53 + (binade x - 52) = 52 + (binade x - 51)" by simp
    also have "2 powi (52 + (binade x - 51)) = (2::real) powi 52 * 2 powi (binade x - 51)"
      by (rule two_powi_add)
    also have "\<dots> = of_int (2 ^ 52) * 2 powi (binade x - 51)" by simp
    finally have eq: "f64 x = of_int (2 ^ 52) * 2 powi (binade x - 51)" .
    show ?thesis unfolding eq by (rule f64_exact) simp_all
  qed
qed

lemma f64_idem: "0 \<le> x \<Longrightarrow> f64 (f64 x) = f64 x"
  using f64_idem_pos [of x] by (cases "x = 0") (simp_all add: f64_zero)

lemma f64_one: "f64 1 = 1"
  using f64_exact [of "2 ^ 52" "- 52"] by (simp add: power_int_minus field_simps)

lemma py_round_mono:
  assumes "0 \<le> x" and "x \<le> y"
  shows "py_round x n \<le> py_round y n"
proof -
  from assms have "x * 10 ^ n \<le> y * 10 ^ n" by (simp add: mult_right_mono)
  then have le: "round_half_even (x * 10 ^ n) \<le> round_half_even (y * 10 ^ n)"
    by (rule round_half_even_mono)
  from assms(1) have "0 \<le> x * 10 ^ n" by simp
  then have "0 \<le> round_half_even (x * 10 ^ n)" by (rule round_half_even_nonneg)
  then have 0: "(0::real) \<le> of_int (round_half_even (x * 10 ^ n)) / 10 ^ n" by simp
  from le have
    "(of_int (round_half_even (x * 10 ^ n)) :: real) / 10 ^ n
       \<le> of_int (round_half_even (y * 10 ^ n)) / 10 ^ n"
    by (simp add: divide_right_mono)
  with 0 show ?thesis unfolding py_round_def by (rule f64_mono)
qed



lemma f64_ge_one: "1 \<le> x \<Longrightarrow> 1 \<le> f64 x"
  using f64_mono [of 1 x] by (simp add: f64_one)



section \<open>The cost model\<close>

lemma base_time_per_hop_cases:
  "base_time_per_hop r =
     (if r > 0.7 then 12 else if r > 0.4 then 45 else if r > 0.1 then 180 else 480)"
  by (simp add: base_time_per_hop_def BASE_TIME_THRESHOLDS_def)

lemma compute_cost_short:
  assumes "max_depth m = 0" "node_count m \<le> 1"
  shows "compute_cost m =
     \<lparr>tiers =
        [\<lparr>tier_name = ''Mid-level analyst'', hourly_rate = 200, tooling_overhead = 0,
          estimated_hours_low = 0, estimated_hours_high = 0, total_low = 0, total_high = 0\<rparr>,
         \<lparr>tier_name = ''Senior specialist'', hourly_rate = 450, tooling_overhead = 150,
          estimated_hours_low = 0, estimated_hours_high = 0, total_low = 0, total_high = 0\<rparr>,
         \<lparr>tier_name = ''Litigation expert'', hourly_rate = 1000, tooling_overhead = 150,
          estimated_hours_low = 0, estimated_hours_high = 0, total_low = 0, total_high = 0\<rparr>],
      base_hours_per_hop = 0,
      total_hops = 0,
      mixing_multiplier = 1,
      branching_multiplier = 1,
      taproot_multiplier = 1,
      fan_in_multiplier = 1,
      unresolved_hours = 0,
      privacy_floor = TRACEABLE,
      confidence = ''high''\<rparr>"
  using assms by (simp add: compute_cost_def TIERS_def)


text \<open>The low and the high hours of \<open>compute_cost\<close>, as functions of the metrics.\<close>

lemma compute_cost_tiers:
  assumes "\<not> (max_depth m = 0 \<and> node_count m \<le> 1)"
  shows "let hops = max (max_depth m) 1;
             base = f64 ((if attribution_rate m > 0.7 then 12
                          else if attribution_rate m > 0.4 then 45
                          else if attribution_rate m > 0.1 then 180
                          else 480) / 60);
             mixing = (if coinjoin_detected m then 3.5 else 1);
             branching =
               (if avg_branch_factor m > 5 then f64 (f64 (avg_branch_factor m) / 5) else 1);
             taproot = (if taproot_ratio m > 0.5 then f64 1.4 else 1);
             fan_in = (if avg_fan_in m > 5 then f64 (f64 (avg_fan_in m) / 5) else 1);
             mult = f64 (f64 (f64 (mixing * branching) * taproot) * fan_in);
             hours_low = f64 (f64 (base * f64 (of_int hops)) * mult);
             hours_high =
               f64 (f64 (hours_low * f64 1.6) + f64 (f64 (of_int (unresolved_paths m)) * 8))
         in tiers (compute_cost m) = map (tier_estimate hours_low hours_high) TIERS"
  unfolding compute_cost_def if_not_P [OF assms] Let_def base_time_per_hop_cases
  by (simp add: MIXING_MULTIPLIER_def TAPROOT_THRESHOLD_def
      TAPROOT_MULTIPLIER_def UNRESOLVED_HOURS_EACH_def HIGH_ESTIMATE_FACTOR_def)



text \<open>
  Claim C3.  For every metrics record with \<open>max_depth = 0\<close> and \<open>node_count \<le> 1\<close>,
  \<open>compute_cost\<close> returns the short-circuit estimate: the three tiers with zero hours
  and zero dollar totals, the four multipliers equal to 1, \<open>base_hours_per_hop\<close>,
  \<open>total_hops\<close> and the unresolved hours equal to 0, the privacy floor traceable and
  the confidence high.
\<close>

theorem compute_cost_zero_hop:
  assumes "max_depth m = 0" and "node_count m \<le> 1"
  shows "compute_cost m =
     \<lparr>tiers =
        [\<lparr>tier_name = ''Mid-level analyst'', hourly_rate = 200, tooling_overhead = 0,
          estimated_hours_low = 0, estimated_hours_high = 0, total_low = 0, total_high = 0\<rparr>,
         \<lparr>tier_name = ''Senior specialist'', hourly_rate = 450, tooling_overhead = 150,
          estimated_hours_low = 0, estimated_hours_high = 0, total_low = 0, total_high = 0\<rparr>,
         \<lparr>tier_name = ''Litigation expert'', hourly_rate = 1000, tooling_overhead = 150,
          estimated_hours_low = 0, estimated_hours_high = 0, total_low = 0, total_high = 0\<rparr>],
      base_hours_per_hop = 0,
      total_hops = 0,
      mixing_multiplier = 1,
      branching_multiplier = 1,
      taproot_multiplier = 1,
      fan_in_multiplier = 1,
      unresolved_hours = 0,
      privacy_floor = TRACEABLE,
      confidence = ''high''\<rparr>"
  using assms by (rule compute_cost_short)

theorem compute_cost_zero_hop_witness:
  "max_depth zero_hop_metrics = 0 \<and> node_count zero_hop_metrics \<le> 1
   \<and> coinjoin_detected zero_hop_metrics
   \<and> mixing_multiplier (compute_cost zero_hop_metrics) = 1
   \<and> map total_high (tiers (compute_cost zero_hop_metrics)) = [0, 0, 0]
   \<and> confidence (compute_cost zero_hop_metrics) = ''high''"
proof -
  have d: "max_depth zero_hop_metrics = 0" and n: "node_count zero_hop_metrics \<le> 1"
    and c: "coinjoin_detected zero_hop_metrics"
    by (simp_all add: zero_hop_metrics_def make_metrics_def)
  show ?thesis
    unfolding compute_cost_zero_hop [OF d n] using d n c by simp
qed









lemma TIERS_rate_nonneg: "d \<in> set TIERS \<Longrightarrow> 0 \<le> rate d \<and> 0 \<le> tooling d"
  by (auto simp: TIERS_def)

lemma tier_estimate_ordered:
  assumes "0 \<le> lo" and "lo \<le> hi" and "0 \<le> rate d" and "0 \<le> tooling d"
  shows "estimated_hours_low (tier_estimate lo hi d) \<le> estimated_hours_high (tier_estimate lo hi d)"
    and "total_low (tier_estimate lo hi d) \<le> total_high (tier_estimate lo hi d)"
proof -
  show "estimated_hours_low (tier_estimate lo hi d) \<le> estimated_hours_high (tier_estimate lo hi d)"
    using assms(1,2) by (simp add: tier_estimate_def Let_def py_round_mono)
  define er where "er = f64 (f64 (rate d) + f64 (tooling d))"
  from assms(3,4) have "0 \<le> f64 (rate d) + f64 (tooling d)"
    by (simp add: f64_nonneg)
  then have er: "0 \<le> er" unfolding er_def by (rule f64_nonneg)
  from assms(1) er have 0: "0 \<le> lo * er" by simp
  from assms(2) er have "lo * er \<le> hi * er" by (rule mult_right_mono)
  with 0 have "f64 (lo * er) \<le> f64 (hi * er)" by (rule f64_mono)
  moreover from 0 have "0 \<le> f64 (lo * er)" by (rule f64_nonneg)
  ultimately have "py_round (f64 (lo * er)) 0 \<le> py_round (f64 (hi * er)) 0"
    by (intro py_round_mono)
  then show "total_low (tier_estimate lo hi d) \<le> total_high (tier_estimate lo hi d)"
    by (simp add: tier_estimate_def Let_def er_def)
qed

text \<open>A multiplier of \<open>compute_cost\<close> is never negative.\<close>

lemma ratio_multiplier_nonneg: "0 \<le> (if b > 5 then f64 (f64 b / 5) else (1::real))"
proof (cases "b > 5")
  case True
  then have "0 \<le> f64 b" by (intro f64_nonneg) simp
  then have "0 \<le> f64 b / 5" by simp
  then have "0 \<le> f64 (f64 b / 5)" by (rule f64_nonneg)
  with True show ?thesis by simp
next
  case False
  then show ?thesis by simp
qed

lemma multipliers_nonneg:
  "0 \<le> f64 (f64 (f64 ((if c then 3.5 else 1)
                         * (if b > 5 then f64 (f64 b / 5) else 1))
                    * (if t > 0.5 then f64 1.4 else 1))
               * (if f > 5 then f64 (f64 f / 5) else (1::real)))"
proof -
  have 1: "0 \<le> (if c then 3.5 else (1::real))" by simp
  have 3: "0 \<le> (if t > 0.5 then f64 1.4 else (1::real))" by (simp add: f64_nonneg)
  from 1 ratio_multiplier_nonneg [of b]
  have "0 \<le> (if c then 3.5 else 1) * (if b > 5 then f64 (f64 b / 5) else (1::real))"
    by (rule mult_nonneg_nonneg)
  then have "0 \<le> f64 ((if c then 3.5 else 1) * (if b > 5 then f64 (f64 b / 5) else (1::real)))"
    by (rule f64_nonneg)
  from this 3
  have "0 \<le> f64 ((if c then 3.5 else 1) * (if b > 5 then f64 (f64 b / 5) else (1::real)))
             * (if t > 0.5 then f64 1.4 else 1)"
    by (rule mult_nonneg_nonneg)
  then have "0 \<le> f64 (f64 ((if c then 3.5 else 1) * (if b > 5 then f64 (f64 b / 5) else (1::real)))
             * (if t > 0.5 then f64 1.4 else 1))"
    by (rule f64_nonneg)
  from this ratio_multiplier_nonneg [of f]
  have "0 \<le> f64 (f64 ((if c then 3.5 else 1) * (if b > 5 then f64 (f64 b / 5) else (1::real)))
             * (if t > 0.5 then f64 1.4 else 1))
             * (if f > 5 then f64 (f64 f / 5) else (1::real))"
    by (rule mult_nonneg_nonneg)
  then show ?thesis by (rule f64_nonneg)
qed

text \<open>
  The high hours are the low hours times the double of 1.6, which is at least 1, plus
  unresolved hours that are not negative; rounding to a double keeps the order.
\<close>

lemma hours_low_le_high:
  assumes "0 \<le> a" and "0 \<le> u"
  shows "f64 a \<le> f64 (f64 (f64 a * f64 1.6) + u)"
proof -
  have fa: "0 \<le> f64 a" using assms(1) by (rule f64_nonneg)
  have "(1::real) \<le> f64 1.6" by (rule f64_ge_one) simp
  from this fa have "f64 a * 1 \<le> f64 a * f64 1.6" by (rule mult_left_mono)
  then have "f64 a \<le> f64 a * f64 1.6" by simp
  with fa have "f64 (f64 a) \<le> f64 (f64 a * f64 1.6)" by (rule f64_mono)
  then have "f64 a \<le> f64 (f64 a * f64 1.6)" by (simp only: f64_idem [OF assms(1)])
  with assms(2) have "f64 a \<le> f64 (f64 a * f64 1.6) + u" by simp
  with fa have "f64 (f64 a) \<le> f64 (f64 (f64 a * f64 1.6) + u)" by (rule f64_mono)
  then show ?thesis by (simp only: f64_idem [OF assms(1)])
qed

lemma compute_cost_tiers_ordered:
  assumes "\<not> (max_depth m = 0 \<and> node_count m \<le> 1)" and "0 \<le> unresolved_paths m"
  shows "\<exists>lo hi. 0 \<le> lo \<and> lo \<le> hi \<and> tiers (compute_cost m) = map (tier_estimate lo hi) TIERS"
proof -
  define mult where "mult =
    f64 (f64 (f64 ((if coinjoin_detected m then 3.5 else 1)
                   * (if avg_branch_factor m > 5 then f64 (f64 (avg_branch_factor m) / 5) else 1))
              * (if taproot_ratio m > 0.5 then f64 1.4 else 1))
         * (if avg_fan_in m > 5 then f64 (f64 (avg_fan_in m) / 5) else (1::real)))"
  define base where "base =
    f64 ((if attribution_rate m > 0.7 then 12
          else if attribution_rate m > 0.4 then 45
          else if attribution_rate m > 0.1 then 180
          else 480) / 60)"
  define a where "a = f64 (base * f64 (of_int (max (max_depth m) 1))) * mult"
  define u where "u = f64 (f64 (of_int (unresolved_paths m)) * 8)"
  have m: "0 \<le> mult" unfolding mult_def by (rule multipliers_nonneg)
  have "(0::real) \<le> (if attribution_rate m > 0.7 then 12
          else if attribution_rate m > 0.4 then 45
          else if attribution_rate m > 0.1 then 180
          else 480) / 60"
    by simp
  then have b: "0 \<le> base" unfolding base_def by (rule f64_nonneg)
  have h: "0 \<le> f64 (of_int (max (max_depth m) 1))" by (rule f64_nonneg) simp
  from b h have "0 \<le> base * f64 (of_int (max (max_depth m) 1))"
    by (rule mult_nonneg_nonneg)
  then have "0 \<le> f64 (base * f64 (of_int (max (max_depth m) 1)))"
    by (rule f64_nonneg)
  from this m have a: "0 \<le> a" unfolding a_def by (rule mult_nonneg_nonneg)
  have "0 \<le> f64 (of_int (unresolved_paths m))" using assms(2) by (intro f64_nonneg) simp
  then have "0 \<le> f64 (of_int (unresolved_paths m)) * 8" by simp
  then have u: "0 \<le> u" unfolding u_def by (rule f64_nonneg)
  have t: "tiers (compute_cost m)
      = map (tier_estimate (f64 a) (f64 (f64 (f64 a * f64 1.6) + u))) TIERS"
    using compute_cost_tiers [OF assms(1)] unfolding Let_def a_def u_def mult_def base_def .
  from a have "0 \<le> f64 a" by (rule f64_nonneg)
  moreover from a u have "f64 a \<le> f64 (f64 (f64 a * f64 1.6) + u)" by (rule hours_low_le_high)
  ultimately show ?thesis using t by blast
qed

text \<open>
  Claim C10.  For metrics with non-negative \<open>unresolved_paths\<close>, attribution rate and
  multiplier inputs, every tier that \<open>compute_cost\<close> returns has
  \<open>estimated_hours_low \<le> estimated_hours_high\<close> and \<open>total_low \<le> total_high\<close>.
\<close>

theorem compute_cost_low_le_high:
  assumes "0 \<le> unresolved_paths m" and "0 \<le> attribution_rate m"
    and "0 \<le> avg_branch_factor m" and "0 \<le> taproot_ratio m" and "0 \<le> avg_fan_in m"
  shows "\<forall>t \<in> set (tiers (compute_cost m)).
           estimated_hours_low t \<le> estimated_hours_high t \<and> total_low t \<le> total_high t"
proof (cases "max_depth m = 0 \<and> node_count m \<le> 1")
  case True
  then have "compute_cost m = compute_cost m \<and> tiers (compute_cost m) =
      [\<lparr>tier_name = ''Mid-level analyst'', hourly_rate = 200, tooling_overhead = 0,
          estimated_hours_low = 0, estimated_hours_high = 0, total_low = 0, total_high = 0\<rparr>,
         \<lparr>tier_name = ''Senior specialist'', hourly_rate = 450, tooling_overhead = 150,
          estimated_hours_low = 0, estimated_hours_high = 0, total_low = 0, total_high = 0\<rparr>,
         \<lparr>tier_name = ''Litigation expert'', hourly_rate = 1000, tooling_overhead = 150,
          estimated_hours_low = 0, estimated_hours_high = 0, total_low = 0, total_high = 0\<rparr>]"
    by (simp add: compute_cost_short)
  then show ?thesis by simp
next
  case False
  from compute_cost_tiers_ordered [OF False assms(1)]
  obtain lo hi where lo: "0 \<le> lo" and le: "lo \<le> hi"
    and ts: "tiers (compute_cost m) = map (tier_estimate lo hi) TIERS"
    by blast
  show ?thesis
    unfolding ts
  proof
    fix t
    assume "t \<in> set (map (tier_estimate lo hi) TIERS)"
    then obtain d where d: "d \<in> set TIERS" and t: "t = tier_estimate lo hi d"
      by (auto simp only: set_map)
    from TIERS_rate_nonneg [OF d] have r: "0 \<le> rate d" and o: "0 \<le> tooling d" by simp_all
    show "estimated_hours_low t \<le> estimated_hours_high t \<and> total_low t \<le> total_high t"
      unfolding t by (intro conjI tier_estimate_ordered lo le r o)
  qed
qed

theorem compute_cost_low_le_high_witness:
  "0 \<le> unresolved_paths unresolved_metrics \<and> 0 \<le> attribution_rate unresolved_metrics
   \<and> 0 \<le> avg_branch_factor unresolved_metrics \<and> 0 \<le> taproot_ratio unresolved_metrics
   \<and> 0 \<le> avg_fan_in unresolved_metrics
   \<and> length (tiers (compute_cost unresolved_metrics)) = 3
   \<and> estimated_hours_low (tiers (compute_cost unresolved_metrics) ! 1)
       \<le> estimated_hours_high (tiers (compute_cost unresolved_metrics) ! 1)
   \<and> total_low (tiers (compute_cost unresolved_metrics) ! 1)
       \<le> total_high (tiers (compute_cost unresolved_metrics) ! 1)"
proof -
  have pre: "0 \<le> unresolved_paths unresolved_metrics" "0 \<le> attribution_rate unresolved_metrics"
    "0 \<le> avg_branch_factor unresolved_metrics" "0 \<le> taproot_ratio unresolved_metrics"
    "0 \<le> avg_fan_in unresolved_metrics"
    by (simp_all add: unresolved_metrics_def make_metrics_def)
  have ns: "\<not> (max_depth unresolved_metrics = 0 \<and> node_count unresolved_metrics \<le> 1)"
    by (simp add: unresolved_metrics_def make_metrics_def)
  have len: "length (tiers (compute_cost unresolved_metrics)) = 3"
    using compute_cost_tiers [OF ns] by (simp add: TIERS_def Let_def)
  then have "tiers (compute_cost unresolved_metrics) ! 1 \<in> set (tiers (compute_cost unresolved_metrics))"
    by (intro nth_mem) simp
  with compute_cost_low_le_high [OF pre]
  have "estimated_hours_low (tiers (compute_cost unresolved_metrics) ! 1)
       \<le> estimated_hours_high (tiers (compute_cost unresolved_metrics) ! 1)
   \<and> total_low (tiers (compute_cost unresolved_metrics) ! 1)
       \<le> total_high (tiers (compute_cost unresolved_metrics) ! 1)"
    by (rule bspec)
  with pre len show ?thesis by (intro conjI) simp_all
qed
section \<open>CoinJoin detection\<close>

lemma counter_add_keys:
  "fst ` set (counter_add x c) = insert x (fst ` set c)"
  by (induction x c rule: counter_add.induct) auto

lemma counter_add_distinct:
  "distinct (map fst c) \<Longrightarrow> distinct (map fst (counter_add x c))"
  by (induction x c rule: counter_add.induct) (auto simp: counter_add_keys)

lemma counter_add_cnt:
  "cnt (counter_add x c) k = (if k = x then cnt c k + 1 else cnt c k)"
  by (induction x c rule: counter_add.induct) (auto simp: cnt_def)

lemma counter_add_pos:
  "\<forall>(k, n) \<in> set c. 0 < n \<Longrightarrow> \<forall>(k, n) \<in> set (counter_add x c). 0 < n"
  by (induction x c rule: counter_add.induct) auto

lemma fold_counter_add:
  "distinct (map fst c) \<Longrightarrow> \<forall>(k, n) \<in> set c. 0 < n \<Longrightarrow>
     distinct (map fst (fold counter_add xs c))
     \<and> fst ` set (fold counter_add xs c) = fst ` set c \<union> set xs
     \<and> (\<forall>k. cnt (fold counter_add xs c) k = cnt c k + count_list xs k)
     \<and> (\<forall>(k, n) \<in> set (fold counter_add xs c). 0 < n)"
proof (induction xs arbitrary: c)
  case Nil
  then show ?case by simp
next
  case (Cons x xs)
  have d: "distinct (map fst (counter_add x c))"
    using Cons.prems(1) by (rule counter_add_distinct)
  have p: "\<forall>(k, n) \<in> set (counter_add x c). 0 < n"
    using Cons.prems(2) by (rule counter_add_pos)
  from Cons.IH [OF d p] show ?case
    by (auto simp: counter_add_keys counter_add_cnt)
qed

lemma Counter_distinct: "distinct (map fst (Counter xs))"
  using fold_counter_add [of "[]" xs] by (simp add: Counter_def)

lemma Counter_keys: "fst ` set (Counter xs) = set xs"
  using fold_counter_add [of "[]" xs] by (simp add: Counter_def)

lemma Counter_cnt: "cnt (Counter xs) k = count_list xs k"
  using fold_counter_add [of "[]" xs] by (simp add: Counter_def cnt_def)

lemma Counter_mem:
  "(k, n) \<in> set (Counter xs) \<longleftrightarrow> k \<in> set xs \<and> n = count_list xs k"
proof
  assume m: "(k, n) \<in> set (Counter xs)"
  then have "map_of (Counter xs) k = Some n"
    using Counter_distinct [of xs] by simp
  then have "cnt (Counter xs) k = n" by (simp add: cnt_def)
  moreover from m have "k \<in> fst ` set (Counter xs)" by force
  ultimately show "k \<in> set xs \<and> n = count_list xs k"
    by (simp add: Counter_cnt Counter_keys)
next
  assume a: "k \<in> set xs \<and> n = count_list xs k"
  then have "k \<in> fst ` set (Counter xs)" by (simp add: Counter_keys)
  then obtain m where m: "(k, m) \<in> set (Counter xs)" by auto
  then have "map_of (Counter xs) k = Some m"
    using Counter_distinct [of xs] by simp
  then have "cnt (Counter xs) k = m" by (simp add: cnt_def)
  with a m show "(k, n) \<in> set (Counter xs)" by (simp add: Counter_cnt)
qed

lemma Counter_empty_iff: "Counter xs = [] \<longleftrightarrow> xs = []"
  using Counter_keys [of xs] by (metis image_is_empty set_empty)

lemma max_by_count_mem: "max_by_count b ps \<in> set (b # ps)"
  by (induction ps arbitrary: b) auto

lemma max_by_count_ge_best: "snd b \<le> snd (max_by_count b ps)"
proof (induction ps arbitrary: b)
  case Nil
  then show ?case by simp
next
  case (Cons q qs)
  have "snd b \<le> snd (if snd b < snd q then q else b)" by simp
  also have "\<dots> \<le> snd (max_by_count (if snd b < snd q then q else b) qs)"
    by (rule Cons.IH)
  finally show ?case by simp
qed

lemma max_by_count_ge_rest: "p \<in> set ps \<Longrightarrow> snd p \<le> snd (max_by_count b ps)"
proof (induction ps arbitrary: b)
  case Nil
  then show ?case by simp
next
  case (Cons q qs)
  show ?case
  proof (cases "p = q")
    case True
    have "snd q \<le> snd (if snd b < snd q then q else b)" by simp
    also have "\<dots> \<le> snd (max_by_count (if snd b < snd q then q else b) qs)"
      by (rule max_by_count_ge_best)
    finally show ?thesis using True by simp
  next
    case False
    with Cons.prems have "p \<in> set qs" by simp
    then have "snd p \<le> snd (max_by_count (if snd b < snd q then q else b) qs)"
      by (rule Cons.IH)
    then show ?thesis by simp
  qed
qed

lemma max_by_count_ge: "p \<in> set (b # ps) \<Longrightarrow> snd p \<le> snd (max_by_count b ps)"
  using max_by_count_ge_best [of b ps] max_by_count_ge_rest [of p ps b] by auto

lemma most_common_1_Counter:
  assumes "most_common_1 (Counter xs) = Some (v, c)"
  shows "v \<in> set xs \<and> c = count_list xs v \<and> (\<forall>w \<in> set xs. count_list xs w \<le> c)"
proof -
  from assms obtain p ps where ps: "Counter xs = p # ps" and vc: "(v, c) = max_by_count p ps"
    by (cases "Counter xs") auto
  have "(v, c) \<in> set (Counter xs)"
    unfolding ps vc by (rule max_by_count_mem)
  then have 1: "v \<in> set xs \<and> c = count_list xs v" by (simp add: Counter_mem)
  have "count_list xs w \<le> c" if "w \<in> set xs" for w
  proof -
    from that have "(w, count_list xs w) \<in> set (p # ps)"
      unfolding ps [symmetric] by (simp add: Counter_mem)
    from max_by_count_ge [OF this] show ?thesis
      unfolding vc [symmetric] by simp
  qed
  with 1 show ?thesis by blast
qed

lemma most_common_1_None: "most_common_1 c = None \<longleftrightarrow> c = []"
  by (cases c) auto

lemma known_denomination_check:
  "list_ex (\<lambda>(value', count'). count' \<ge> 3 \<and> value' \<in> K) (Counter xs)
     \<longleftrightarrow> (\<exists>v \<in> K. 3 \<le> count_list xs v)"
proof
  assume "list_ex (\<lambda>(value', count'). count' \<ge> 3 \<and> value' \<in> K) (Counter xs)"
  then obtain v c where "(v, c) \<in> set (Counter xs)" "3 \<le> c" "v \<in> K"
    by (auto simp: list_ex_iff)
  then show "\<exists>v \<in> K. 3 \<le> count_list xs v"
    by (auto simp: Counter_mem)
next
  assume "\<exists>v \<in> K. 3 \<le> count_list xs v"
  then obtain v where v: "v \<in> K" "3 \<le> count_list xs v" by auto
  then have "v \<in> set xs" by (metis count_notin not_numeral_le_zero)
  then have "(v, count_list xs v) \<in> set (Counter xs)" by (simp add: Counter_mem)
  with v show "list_ex (\<lambda>(value', count'). count' \<ge> 3 \<and> value' \<in> K) (Counter xs)"
    by (auto simp: list_ex_iff)
qed

lemma equal_groups_card:
  "length (filter (\<lambda>count'. count' \<ge> 3) (map snd (Counter xs)))
     = card {v \<in> set xs. 3 \<le> count_list xs v}"
proof -
  let ?f = "filter (\<lambda>(k, n). 3 \<le> n) (Counter xs)"
  have "length (filter (\<lambda>count'. count' \<ge> 3) (map snd (Counter xs))) = length ?f"
    by (simp add: filter_map comp_def case_prod_unfold)
  also have "\<dots> = length (map fst ?f)" by simp
  also have "\<dots> = card (set (map fst ?f))"
  proof -
    have "distinct (map fst ?f)"
      using Counter_distinct [of xs] by (rule distinct_map_filter)
    then show ?thesis by (rule distinct_card [symmetric])
  qed
  also have "set (map fst ?f) = {v \<in> set xs. 3 \<le> count_list xs v}"
  proof (intro set_eqI iffI)
    fix v assume "v \<in> set (map fst ?f)"
    then obtain n where "(v, n) \<in> set (Counter xs)" "3 \<le> n" by auto
    then show "v \<in> {v \<in> set xs. 3 \<le> count_list xs v}"
      by (simp add: Counter_mem)
  next
    fix v assume "v \<in> {v \<in> set xs. 3 \<le> count_list xs v}"
    then have "(v, count_list xs v) \<in> set ?f" by (simp add: Counter_mem)
    then have "fst (v, count_list xs v) \<in> fst ` set ?f" by (rule imageI)
    then show "v \<in> set (map fst ?f)" by simp
  qed
  finally show ?thesis .
qed

text \<open>
  Claim C2.  \<open>_is_coinjoin\<close>, which \<open>compute_complexity\<close> asks of every resolved node,
  flags a node if and only if it has at least 5 outputs and, over the histogram of its
  positive output values, (a) some known denomination occurs at least 3 times, or (b) a
  most frequent value occurs at least 5 times and on more than half of all outputs, or
  (c) at least 3 distinct values occur at least 3 times each.  So a node with fewer than
  5 outputs is never flagged, and outputs of value zero do not count.
\<close>

theorem is_coinjoin_iff:
  "is_coinjoin node \<longleftrightarrow>
     5 \<le> length (outputs node)
     \<and> (let vals = filter (\<lambda>v. 0 < v) (map TxOutput.value_sat (outputs node))
        in (\<exists>v \<in> {10000000, 100000, 1000000, 2500000, 5000000, 25000000, 50000000}.
              3 \<le> count_list vals v)
         \<or> (\<exists>v \<in> set vals.
               (\<forall>w \<in> set vals. count_list vals w \<le> count_list vals v)
               \<and> 5 \<le> count_list vals v
               \<and> 1 / 2 < real (count_list vals v) / real (length (outputs node)))
         \<or> 3 \<le> card {v \<in> set vals. 3 \<le> count_list vals v})"
proof (cases "length (outputs node) < 5")
  case True
  then show ?thesis
    by (simp add: is_coinjoin_def MIN_EQUAL_OUTPUTS_FOR_COINJOIN_def Let_def)
next
  case False
  define vals where "vals = filter (\<lambda>v. 0 < v) (map TxOutput.value_sat (outputs node))"
  define n where "n = length (outputs node)"
  have K: "ALL_KNOWN_DENOMINATIONS
      = {10000000, 100000, 1000000, 2500000, 5000000, 25000000, 50000000}"
    unfolding ALL_KNOWN_DENOMINATIONS_def WASABI_V1_DENOMINATIONS_def
      WHIRLPOOL_DENOMINATIONS_def by blast
  let ?A = "\<exists>v \<in> ALL_KNOWN_DENOMINATIONS. 3 \<le> count_list vals v"
  let ?B = "\<exists>v \<in> set vals.
               (\<forall>w \<in> set vals. count_list vals w \<le> count_list vals v)
               \<and> 5 \<le> count_list vals v
               \<and> 1 / 2 < real (count_list vals v) / real n"
  let ?C = "3 \<le> card {v \<in> set vals. 3 \<le> count_list vals v}"
  have main: "is_coinjoin node \<longleftrightarrow> ?A \<or> ?B \<or> ?C"
  proof (cases "most_common_1 (Counter vals)")
    case None
    then have e: "vals = []" by (simp add: most_common_1_None Counter_empty_iff)
    then have "Counter vals = []" by (simp add: Counter_empty_iff)
    with False have "\<not> is_coinjoin node"
      by (simp add: is_coinjoin_def MIN_EQUAL_OUTPUTS_FOR_COINJOIN_def Let_def
          vals_def [symmetric])
    moreover have "\<not> ?A" "\<not> ?B" "\<not> ?C" by (simp_all add: e)
    ultimately show ?thesis by blast
  next
    case (Some vc)
    obtain v c where vc: "vc = (v, c)" by (cases vc)
    from most_common_1_Counter [OF Some [unfolded vc]]
    have v: "v \<in> set vals" and c: "c = count_list vals v"
      and mx: "\<forall>w \<in> set vals. count_list vals w \<le> c" by blast+
    have B: "(5 \<le> c \<and> 1 / 2 < real c / real n) \<longleftrightarrow> ?B"
    proof
      assume "5 \<le> c \<and> 1 / 2 < real c / real n"
      with v c mx show ?B by blast
    next
      assume ?B
      then obtain u where u: "u \<in> set vals"
        "\<forall>w \<in> set vals. count_list vals w \<le> count_list vals u"
        "5 \<le> count_list vals u" "1 / 2 < real (count_list vals u) / real n" by blast
      from u(1) mx have "count_list vals u \<le> c" by blast
      moreover from v u(2) c have "c \<le> count_list vals u" by blast
      ultimately have "count_list vals u = c" by simp
      with u show "5 \<le> c \<and> 1 / 2 < real c / real n" by simp
    qed
    have "is_coinjoin node \<longleftrightarrow>
        (list_ex (\<lambda>(value', count'). count' \<ge> 3 \<and> value' \<in> ALL_KNOWN_DENOMINATIONS)
           (Counter vals)
         \<or> (5 \<le> c \<and> 1 / 2 < real c / real n)
         \<or> 3 \<le> length (filter (\<lambda>count'. count' \<ge> 3) (map snd (Counter vals))))"
    proof -
      from Some have "Counter vals \<noteq> []" by (auto simp: most_common_1_None [symmetric])
      with False Some show ?thesis
        by (simp add: is_coinjoin_def MIN_EQUAL_OUTPUTS_FOR_COINJOIN_def Let_def
            vals_def [symmetric] n_def [symmetric] vc)
    qed
    then show ?thesis
      unfolding known_denomination_check equal_groups_card B .
  qed
  from False have "5 \<le> length (outputs node)" by simp
  with main show ?thesis
    unfolding Let_def vals_def [symmetric] n_def [symmetric] K by simp
qed

lemma wasabi_cj_facts:
  "length (outputs wasabi_cj) = 15"
  "count_list (filter (\<lambda>v. 0 < v) (map TxOutput.value_sat (outputs wasabi_cj))) 10000000 = 10"
  by (simp_all add: wasabi_cj_def GraphNode_init_def TxOutput_init_def numeral_eq_Suc)

theorem is_coinjoin_iff_witness:
  "5 \<le> length (outputs wasabi_cj)
   \<and> 3 \<le> count_list (filter (\<lambda>v. 0 < v) (map TxOutput.value_sat (outputs wasabi_cj))) 10000000
   \<and> is_coinjoin wasabi_cj"
proof -
  have l: "5 \<le> length (outputs wasabi_cj)" by (simp add: wasabi_cj_facts)
  have a: "3 \<le> count_list (filter (\<lambda>v. 0 < v) (map TxOutput.value_sat (outputs wasabi_cj))) 10000000"
    by (simp add: wasabi_cj_facts)
  then have "\<exists>v \<in> {10000000, 100000, 1000000, 2500000, 5000000, 25000000, 50000000}.
      3 \<le> count_list (filter (\<lambda>v. 0 < v) (map TxOutput.value_sat (outputs wasabi_cj))) v"
    by blast
  with l have "is_coinjoin wasabi_cj"
    unfolding is_coinjoin_iff [of wasabi_cj] Let_def by blast
  with l a show ?thesis by blast
qed

section \<open>The empty graph\<close>

lemma compute_complexity_no_nodes:
  "nodes g = [] \<Longrightarrow> compute_complexity g = empty_metrics"
  by (simp add: compute_complexity_def)

text \<open>
  Claim C8.  On a graph without nodes \<open>compute_complexity\<close> returns \<open>_empty_metrics()\<close>
  and raises nothing; the counts, ratios and averages it sets are zero, but the average
  and maximum fan-in keep the dataclass defaults 1.0 and 1, so the record is not all
  zero.
\<close>

theorem compute_complexity_empty_graph_fan_in:
  "nodes (GraphResult_init ''test'' []) = []
   \<and> node_count (compute_complexity (GraphResult_init ''test'' [])) = 0
   \<and> avg_branch_factor (compute_complexity (GraphResult_init ''test'' [])) = 0
   \<and> max_branch_factor (compute_complexity (GraphResult_init ''test'' [])) = 0
   \<and> attribution_rate (compute_complexity (GraphResult_init ''test'' [])) = 0
   \<and> avg_fan_in (compute_complexity (GraphResult_init ''test'' [])) = 1
   \<and> max_fan_in (compute_complexity (GraphResult_init ''test'' [])) = 1"
proof -
  have e: "nodes (GraphResult_init ''test'' []) = []"
    by (simp add: GraphResult_init_def)
  show ?thesis
    unfolding compute_complexity_no_nodes [OF e] using e by (simp add: empty_metrics_def)
qed


section \<open>Rate-limit answers\<close>

lemma get_tx_eq:
  "get_tx w url =
     (fst (next_answer (tx_endpoint w url)),
      w\<lparr>tx_endpoint := (tx_endpoint w)(url := snd (next_answer (tx_endpoint w url))),
        trace := trace w @ [Get url]\<rparr>)"
  by (simp add: get_tx_def case_prod_unfold Let_def)

lemma fetch_tx_429:
  assumes "tx_endpoint w (base_url @ ''/tx/'' @ t) = Response 429 body # rest"
  shows "fst (fetch_tx w base_url t) = checked_json (fst (next_answer rest))"
    and "trace (snd (fetch_tx w base_url t))
           = trace w @ [Get (base_url @ ''/tx/'' @ t), Sleep 2, Get (base_url @ ''/tx/'' @ t)]"
  using assms
  by (simp_all add: fetch_tx_def get_tx_eq next_answer_def Let_def case_prod_unfold)

lemma fetch_tx_429_retry_fails:
  assumes "tx_endpoint w (base_url @ ''/tx/'' @ t) = Response 429 body # r2 # rest"
    and "checked_json r2 = None"
  shows "fst (fetch_tx w base_url t) = None"
  using assms by (simp add: fetch_tx_429 next_answer_def)

text \<open>
  \<open>_fetch_tx\<close> answers a 429 with a sleep of two seconds and one more request; here the
  second answer is a 200 and its body is returned.
\<close>

theorem fetch_tx_retries_after_429:
  "fst (fetch_tx throttled_tx_world MEMPOOL_BASE ''ab'') = Some [(''txid'', JStr ''ab'')]
   \<and> trace (snd (fetch_tx throttled_tx_world MEMPOOL_BASE ''ab''))
       = [Get (MEMPOOL_BASE @ ''/tx/ab''), Sleep 2, Get (MEMPOOL_BASE @ ''/tx/ab'')]"
proof -
  have e: "tx_endpoint throttled_tx_world (MEMPOOL_BASE @ ''/tx/'' @ ''ab'')
      = Response 429 None # [Response 200 (Some [(''txid'', JStr ''ab'')])]"
    by (simp add: throttled_tx_world_def)
  have t: "trace throttled_tx_world = []"
    by (simp add: throttled_tx_world_def silent_world_def)
  show ?thesis
    unfolding fetch_tx_429 [OF e] t
    by (simp add: next_answer_def checked_json_def status_ok_def)
qed

text \<open>
  Claim C6.  A 429 is to be followed by a sleep of two seconds and one retry for every
  provider call.  \<open>_fetch_outspends\<close> does neither: on the same two answers it makes one
  request, does not sleep, returns \<open>None\<close> and leaves the 200 unasked.
\<close>

theorem fetch_outspends_no_retry_after_429:
  "outspends_endpoint throttled_outspends_world (MEMPOOL_BASE @ ''/tx/ab/outspends'')
     = [Response 429 None, Response 200 (Some [])]
   \<and> fst (fetch_outspends throttled_outspends_world MEMPOOL_BASE ''ab'') = None
   \<and> trace (snd (fetch_outspends throttled_outspends_world MEMPOOL_BASE ''ab''))
       = [Get (MEMPOOL_BASE @ ''/tx/ab/outspends'')]
   \<and> outspends_endpoint (snd (fetch_outspends throttled_outspends_world MEMPOOL_BASE ''ab''))
        (MEMPOOL_BASE @ ''/tx/ab/outspends'')
       = [Response 200 (Some [])]"
proof -
  have e: "outspends_endpoint throttled_outspends_world (MEMPOOL_BASE @ ''/tx/ab/outspends'')
      = [Response 429 None, Response 200 (Some [])]"
    by (simp add: throttled_outspends_world_def)
  have t: "trace throttled_outspends_world = []"
    by (simp add: throttled_outspends_world_def silent_world_def)
  have u: "MEMPOOL_BASE @ ''/tx/'' @ ''ab'' @ ''/outspends'' = MEMPOOL_BASE @ ''/tx/ab/outspends''"
    by simp
  show ?thesis
    using e t
    by (simp add: fetch_outspends_def get_outspends_def next_answer_def Let_def
        checked_json_def status_ok_def u)
qed

section \<open>Target resolution\<close>

lemma strip_last_not_space:
  assumes "strip s \<noteq> []"
  shows "last (strip s) \<notin> set whitespace"
proof -
  define r where "r = dropWhile (\<lambda>c. c \<in> set whitespace) (rev (dropWhile (\<lambda>c. c \<in> set whitespace) s))"
  from assms have ne: "r \<noteq> []" by (simp add: strip_def r_def)
  have "last (strip s) = hd r"
    using ne by (simp add: strip_def r_def [symmetric] last_rev)
  moreover have "\<not> (hd r \<in> set whitespace)"
    using ne unfolding r_def by (rule hd_dropWhile)
  ultimately show ?thesis by simp
qed

lemma newline_is_space: "CHR 0x0A \<in> set whitespace"
  by (simp add: whitespace_def)

lemma re_dollar_strip: "re_dollar body (strip s) = body (strip s)"
proof (cases "strip s = []")
  case True
  then show ?thesis by (simp add: re_dollar_def)
next
  case False
  from strip_last_not_space [OF False] newline_is_space
  have "last (strip s) \<noteq> CHR 0x0A" by metis
  then show ?thesis by (simp add: re_dollar_def)
qed

lemma TXID_PATTERN_strip:
  "TXID_PATTERN (strip s)
     \<longleftrightarrow> length (strip s) = 64 \<and> list_all (\<lambda>c. c \<in> set hex_chars) (strip s)"
  unfolding TXID_PATTERN_def by (rule re_dollar_strip)

lemma address_body:
  "list_ex
     (\<lambda>p. take (length p) t = p
        \<and> (let r = drop (length p) t
           in 25 \<le> length r \<and> length r \<le> 62 \<and> list_all (\<lambda>c. c \<in> set alnum_chars) r))
     [''1'', ''3'', ''bc1'']
   \<longleftrightarrow>
     ((take 1 t = ''1'' \<or> take 1 t = ''3'')
        \<and> 26 \<le> length t \<and> length t \<le> 63 \<and> list_all (\<lambda>c. c \<in> set alnum_chars) (drop 1 t))
     \<or> (take 3 t = ''bc1''
        \<and> 28 \<le> length t \<and> length t \<le> 65 \<and> list_all (\<lambda>c. c \<in> set alnum_chars) (drop 3 t))"
proof -
  have a: "25 \<le> length t - 1 \<longleftrightarrow> 26 \<le> length t" by arith
  have b: "length t - 1 \<le> 62 \<longleftrightarrow> length t \<le> 63" by arith
  have c: "25 \<le> length t - 3 \<longleftrightarrow> 28 \<le> length t" by arith
  have d: "length t - 3 \<le> 62 \<longleftrightarrow> length t \<le> 65" by arith
  have e1: "length ''1'' = 1" "length ''3'' = 1" "length ''bc1'' = 3" by simp_all
  show ?thesis
    unfolding list_ex_Cons_iff list_ex_Nil_iff Let_def length_drop e1 a b c d
    by blast
qed

lemma ADDRESS_PATTERN_strip:
  "ADDRESS_PATTERN (strip s) \<longleftrightarrow>
     ((take 1 (strip s) = ''1'' \<or> take 1 (strip s) = ''3'')
        \<and> 26 \<le> length (strip s) \<and> length (strip s) \<le> 63
        \<and> list_all (\<lambda>c. c \<in> set alnum_chars) (drop 1 (strip s)))
     \<or> (take 3 (strip s) = ''bc1''
        \<and> 28 \<le> length (strip s) \<and> length (strip s) \<le> 65
        \<and> list_all (\<lambda>c. c \<in> set alnum_chars) (drop 3 (strip s)))"
  unfolding ADDRESS_PATTERN_def re_dollar_strip by (rule address_body)

lemma async_bfs_eq:
  "fst (async_bfs w target) =
     (case fst (resolve_target w target) of
        None \<Rightarrow> Unresolved ((GraphResult_init target [])
                    \<lparr>warnings := [''Could not resolve target: '' @ target]\<rparr>)
      | Some r \<Rightarrow> Traverse r)"
  by (simp add: async_bfs_def Let_def case_prod_unfold GraphResult_init_def split: option.split)

lemma resolve_target_eq:
  "fst (resolve_target w target) =
     (if TXID_PATTERN (strip target) then
        (case fst (fetch_tx_with_fallback w (strip target)) of
           Some d \<Rightarrow> if d \<noteq> [] then Some (strip target) else None
         | None \<Rightarrow> None)
      else if ADDRESS_PATTERN (strip target) then
        (case fst (fetch_address_txids w (strip target) 25) of
           [] \<Rightarrow> None
         | first # rest \<Rightarrow> Some first)
      else None)"
  by (simp add: resolve_target_def Let_def case_prod_unfold)

lemma resolution_shape:
  "(case (if A then (case X of Some d \<Rightarrow> if d \<noteq> [] then Some t else None | None \<Rightarrow> None)
          else if B then (case Y of [] \<Rightarrow> None | first # rest \<Rightarrow> Some first)
          else None) of
      None \<Rightarrow> U
    | Some r \<Rightarrow> Traverse r)
   = (if A then (case X of Some tx \<Rightarrow> if tx \<noteq> [] then Traverse t else U | None \<Rightarrow> U)
      else if B then (case Y of [] \<Rightarrow> U | first # rest \<Rightarrow> Traverse first)
      else U)"
  by (simp split: option.split list.split)

text \<open>
  Claim C5, as amended.  The stripped target is taken as a transaction id when it is 64
  hex characters, and resolves to itself when the fetch returns a non-empty
  transaction; otherwise it is taken as an address when it is \<open>1\<close> or \<open>3\<close> followed by 25
  to 62 alphanumerics (26 to 63 characters in all) or \<open>bc1\<close> followed by 25 to 62
  alphanumerics (28 to 65 in all), and resolves to the first of its up to 25 most
  recent transaction ids.  In every other case, and when the fetch gives nothing, the
  result is the graph with empty \<open>root_txid\<close> and the single warning.
\<close>

theorem async_bfs_target_resolution:
  "let t = strip target;
       is_txid = (length t = 64 \<and> list_all (\<lambda>c. c \<in> set hex_chars) t);
       is_address =
         (((take 1 t = ''1'' \<or> take 1 t = ''3'')
             \<and> 26 \<le> length t \<and> length t \<le> 63
             \<and> list_all (\<lambda>c. c \<in> set alnum_chars) (drop 1 t))
          \<or> (take 3 t = ''bc1''
             \<and> 28 \<le> length t \<and> length t \<le> 65
             \<and> list_all (\<lambda>c. c \<in> set alnum_chars) (drop 3 t)));
       unresolved =
         Unresolved ((GraphResult_init target [])
           \<lparr>warnings := [''Could not resolve target: '' @ target]\<rparr>)
   in fst (async_bfs w target) =
        (if is_txid then
           (case fst (fetch_tx_with_fallback w t) of
              Some tx \<Rightarrow> if tx \<noteq> [] then Traverse t else unresolved
            | None \<Rightarrow> unresolved)
         else if is_address then
           (case fst (fetch_address_txids w t 25) of
              [] \<Rightarrow> unresolved
            | first # rest \<Rightarrow> Traverse first)
         else unresolved)"
  unfolding Let_def async_bfs_eq resolve_target_eq TXID_PATTERN_strip ADDRESS_PATTERN_strip
  by (rule resolution_shape)

lemma long_address_strip: "strip long_address = long_address"
  by (simp add: strip_def long_address_def whitespace_def numeral_eq_Suc)

lemma long_address_length: "length long_address = 63"
  by (simp add: long_address_def)

lemma long_address_head: "take 1 long_address = ''1''"
  by (simp add: long_address_def)

lemma long_address_alnum: "list_all (\<lambda>c. c \<in> set alnum_chars) (drop 1 long_address)"
  by (simp add: long_address_def list_all_iff alnum_chars_def)

lemma long_address_not_txid: "\<not> TXID_PATTERN (strip long_address)"
  using TXID_PATTERN_strip [of long_address]
  unfolding long_address_strip by (simp add: long_address_length)

lemma long_address_matches: "ADDRESS_PATTERN (strip long_address)"
  using ADDRESS_PATTERN_strip [of long_address] long_address_head long_address_alnum
  unfolding long_address_strip
  by (simp add: long_address_length)

lemma long_address_txids:
  "fst (fetch_address_txids long_address_world long_address 25) = [''ab'', ''cd'']"
  by (simp add: fetch_address_txids_def get_address_def long_address_world_def
      next_answer_def checked_json_def status_ok_def Let_def)

text \<open>
  Claim C5 as stated bounds an address by 26 to 62 characters in all; a target of 63
  characters, \<open>1\<close> followed by 62 letters, is not a transaction id and still resolves.
\<close>

theorem async_bfs_long_address_counterexample:
  "length long_address = 63
   \<and> \<not> TXID_PATTERN (strip long_address)
   \<and> fst (async_bfs long_address_world long_address) = Traverse ''ab''"
  unfolding async_bfs_eq resolve_target_eq
  using long_address_not_txid long_address_matches
  by (simp add: long_address_txids long_address_strip long_address_length)

theorem async_bfs_target_resolution_witness:
  "fst (async_bfs long_address_world long_address) = Traverse ''ab''
   \<and> fst (async_bfs silent_world ''not_a_valid_address_or_txid'')
       = Unresolved ((GraphResult_init ''not_a_valid_address_or_txid'' [])
           \<lparr>warnings := [''Could not resolve target: not_a_valid_address_or_txid'']\<rparr>)"
proof -
  have s: "strip ''not_a_valid_address_or_txid'' = ''not_a_valid_address_or_txid''"
    by (simp add: strip_def whitespace_def)
  have 1: "fst (async_bfs long_address_world long_address) = Traverse ''ab''"
    using async_bfs_target_resolution [of long_address long_address_world]
      long_address_head long_address_alnum
    unfolding Let_def long_address_strip long_address_txids
    by (simp add: long_address_length)
  have 2: "fst (async_bfs silent_world ''not_a_valid_address_or_txid'')
       = Unresolved ((GraphResult_init ''not_a_valid_address_or_txid'' [])
           \<lparr>warnings := [''Could not resolve target: not_a_valid_address_or_txid'']\<rparr>)"
    using async_bfs_target_resolution [of "''not_a_valid_address_or_txid''" silent_world]
    unfolding Let_def s by simp
  from 1 2 show ?thesis by (rule conjI)
qed

section \<open>The cluster-oracle cap\<close>

lemma apply_attribution_frame:
  "warnings (apply_attribution g ts a e) = warnings g"
  "we_addresses_queried (apply_attribution g ts a e) = we_addresses_queried g"
  "we_addresses_total_unmatched (apply_attribution g ts a e) = we_addresses_total_unmatched g"
  unfolding apply_attribution_def
  by (induction ts arbitrary: g; simp)+

lemma record_result_frame:
  "warnings (l_graph (record_result an addr ar k b st)) = warnings (l_graph st)"
  "we_addresses_queried (l_graph (record_result an addr ar k b st)) = we_addresses_queried (l_graph st)"
  "we_addresses_total_unmatched (l_graph (record_result an addr ar k b st))
     = we_addresses_total_unmatched (l_graph st)"
  "l_queried (record_result an addr ar k b st) = l_queried st"
  "l_resolved (record_result an addr ar k b st) = (l_resolved st)(addr \<mapsto> ar)"
  by (simp_all add: record_result_def apply_attribution_frame)

lemma tier1_step_frame:
  "warnings (l_graph (tier1_step db an addr st)) = warnings (l_graph st)"
  "we_addresses_queried (l_graph (tier1_step db an addr st)) = we_addresses_queried (l_graph st)"
  "we_addresses_total_unmatched (l_graph (tier1_step db an addr st))
     = we_addresses_total_unmatched (l_graph st)"
  "l_queried (tier1_step db an addr st) = l_queried st"
  "l_resolved (tier1_step db an addr st)
     = (case lookup db addr of Some r \<Rightarrow> (l_resolved st)(addr \<mapsto> r) | None \<Rightarrow> l_resolved st)"
  by (simp_all add: tier1_step_def record_result_frame split: option.split)

lemma tier1_fold_frame:
  "warnings (l_graph (fold (tier1_step db an) xs st)) = warnings (l_graph st)"
  "we_addresses_queried (l_graph (fold (tier1_step db an) xs st)) = we_addresses_queried (l_graph st)"
  "we_addresses_total_unmatched (l_graph (fold (tier1_step db an) xs st))
     = we_addresses_total_unmatched (l_graph st)"
  "l_queried (fold (tier1_step db an) xs st) = l_queried st"
  by (induction xs arbitrary: st; simp add: tier1_step_frame)+

lemma tier1_fold_resolved:
  "l_resolved (fold (tier1_step db an) xs st) a
     = (if a \<in> set xs \<and> lookup db a \<noteq> None then lookup db a else l_resolved st a)"
proof (induction xs arbitrary: st)
  case Nil
  then show ?case by simp
next
  case (Cons x xs)
  show ?case
    by (auto simp add: Cons.IH tier1_step_frame split: option.split)
qed

lemma tier2_step_frame:
  "warnings (l_graph (tier2_step qw an addr st)) = warnings (l_graph st)"
  "we_addresses_queried (l_graph (tier2_step qw an addr st)) = we_addresses_queried (l_graph st)"
  "we_addresses_total_unmatched (l_graph (tier2_step qw an addr st))
     = we_addresses_total_unmatched (l_graph st)"
  "l_queried (tier2_step qw an addr st) = l_queried st @ [addr]"
  by (simp_all add: tier2_step_def record_result_frame Let_def)

lemma tier2_fold_frame:
  "warnings (l_graph (fold (tier2_step qw an) xs st)) = warnings (l_graph st)"
  "we_addresses_queried (l_graph (fold (tier2_step qw an) xs st)) = we_addresses_queried (l_graph st)"
  "we_addresses_total_unmatched (l_graph (fold (tier2_step qw an) xs st))
     = we_addresses_total_unmatched (l_graph st)"
  "l_queried (fold (tier2_step qw an) xs st) = l_queried st @ xs"
  by (induction xs arbitrary: st; simp add: tier2_step_frame)+

lemma tier3_step_frame:
  "warnings (l_graph (tier3_step qa key an addr st)) = warnings (l_graph st)"
  "we_addresses_queried (l_graph (tier3_step qa key an addr st)) = we_addresses_queried (l_graph st)"
  "we_addresses_total_unmatched (l_graph (tier3_step qa key an addr st))
     = we_addresses_total_unmatched (l_graph st)"
  "l_queried (tier3_step qa key an addr st) = l_queried st"
  by (simp_all add: tier3_step_def record_result_frame split: option.split)

lemma tier3_fold_frame:
  "warnings (l_graph (fold (tier3_step qa key an) xs st)) = warnings (l_graph st)"
  "we_addresses_queried (l_graph (fold (tier3_step qa key an) xs st)) = we_addresses_queried (l_graph st)"
  "we_addresses_total_unmatched (l_graph (fold (tier3_step qa key an) xs st))
     = we_addresses_total_unmatched (l_graph st)"
  "l_queried (fold (tier3_step qa key an) xs st) = l_queried st"
  by (induction xs arbitrary: st; simp add: tier3_step_frame)+

lemmas tier_frames = tier1_fold_frame tier2_fold_frame tier3_fold_frame

lemma unmatched_after_tier1:
  "filter (\<lambda>a. l_resolved (fold (tier1_step db an) xs
       \<lparr>l_graph = g, l_results = [], l_resolved = Map.empty, l_by_source = Map.empty,
        l_by_category = Map.empty, l_queried = []\<rparr>) a = None) xs
     = filter (\<lambda>a. lookup db a = None) xs"
  by (rule filter_cong) (simp_all add: tier1_fold_resolved)

lemma attribute_graph_bookkeeping:
  "snd (attribute_graph db qw qa g skip cap key)
     = (if skip then []
        else case cap of
               None \<Rightarrow> filter (\<lambda>a. lookup db a = None) (map fst (build_address_nodes g))
             | Some l \<Rightarrow> slice_to l (filter (\<lambda>a. lookup db a = None) (map fst (build_address_nodes g))))"
  "warnings (fst (attribute_graph db qw qa g skip cap key))
     = warnings g
       @ (case cap of
            None \<Rightarrow> []
          | Some l \<Rightarrow>
              if \<not> skip
                 \<and> int (length (filter (\<lambda>a. lookup db a = None) (map fst (build_address_nodes g)))) > l
              then [we_cap_warning l
                      (length (filter (\<lambda>a. lookup db a = None) (map fst (build_address_nodes g))))]
              else [])"
  "we_addresses_queried (fst (attribute_graph db qw qa g skip cap key))
     = int (length (snd (attribute_graph db qw qa g skip cap key)))"
  "we_addresses_total_unmatched (fst (attribute_graph db qw qa g skip cap key))
     = int (length (filter (\<lambda>a. lookup db a = None) (map fst (build_address_nodes g))))"
  unfolding attribute_graph_def Let_def unmatched_after_tier1
  by (simp_all add: tier_frames split: option.split)

lemma three_address_nodes:
  "build_address_nodes three_address_graph
     = [(''a1'', [''tx0'']), (''a2'', [''tx0'']), (''a3'', [''tx0''])]"
  by (simp add: build_address_nodes_def three_address_graph_def GraphResult_init_def
      GraphNode_init_def TxOutput_init_def node_addresses_def)

lemma three_address_unmatched:
  "filter (\<lambda>a. lookup empty_db a = None) (map fst (build_address_nodes three_address_graph))
     = [''a1'', ''a2'', ''a3'']"
  by (simp add: three_address_nodes empty_db_def)

lemma three_address_warnings: "warnings three_address_graph = []"
  by (simp add: three_address_graph_def GraphResult_init_def)

text \<open>
  Claim C7, as amended.  When Tier 2 is not skipped, with \<open>unmatched\<close> the addresses
  without a Tier 1 result: under a cap \<open>L \<ge> 0\<close> the first \<open>L\<close> of them (all, when there
  are no more than \<open>L\<close>) are queried, and the warning naming \<open>L\<close> and \<open>|unmatched|\<close> is
  appended only when \<open>|unmatched| > L\<close>; without a cap all are queried and no warning is
  appended.  Afterwards \<open>we_addresses_queried\<close> is the number of addresses queried and
  \<open>we_addresses_total_unmatched\<close> is \<open>|unmatched|\<close>.
\<close>

theorem attribute_graph_tier2_cap:
  assumes "\<not> skip_walletexplorer"
  shows "let unmatched =
               filter (\<lambda>a. lookup db a = None) (map fst (build_address_nodes graph));
             (graph', queried) =
               attribute_graph db query_we query_arkham graph skip_walletexplorer we_limit arkham_key
         in (case we_limit of
               None \<Rightarrow> queried = unmatched \<and> warnings graph' = warnings graph
             | Some l \<Rightarrow>
                 0 \<le> l \<longrightarrow>
                   queried = take (nat l) unmatched
                   \<and> warnings graph'
                       = warnings graph
                         @ (if int (length unmatched) > l
                            then [we_cap_warning l (length unmatched)] else []))
            \<and> we_addresses_queried graph' = int (length queried)
            \<and> we_addresses_total_unmatched graph' = int (length unmatched)"
  unfolding Let_def case_prod_unfold
  using assms
  by (simp add: attribute_graph_bookkeeping slice_to_def split: option.split)

text \<open>
  Claim C7 as stated fails when the cap is not reached: with three unmatched addresses
  and the default cap of 200, three addresses are queried and no warning is appended.
\<close>

theorem attribute_graph_under_cap_counterexample:
  "DEFAULT_WE_LIMIT = 200
   \<and> snd (attribute_graph empty_db no_label no_arkham three_address_graph False
            (Some DEFAULT_WE_LIMIT) None) = [''a1'', ''a2'', ''a3'']
   \<and> warnings three_address_graph = []
   \<and> warnings (fst (attribute_graph empty_db no_label no_arkham three_address_graph False
                       (Some DEFAULT_WE_LIMIT) None)) = []"
  by (simp add: attribute_graph_bookkeeping three_address_unmatched three_address_warnings
      DEFAULT_WE_LIMIT_def slice_to_def)

lemma we_cap_warning_2_3:
  "we_cap_warning 2 3
     = ''WalletExplorer: queried 2 of 3 unattributed addresses (capped for speed). Use --thorough to check all.''"
  by (simp add: we_cap_warning_def str_int_def str_nat.simps)

theorem attribute_graph_tier2_cap_witness:
  "snd (attribute_graph empty_db no_label no_arkham three_address_graph False (Some 2) None)
     = [''a1'', ''a2'']
   \<and> warnings (fst (attribute_graph empty_db no_label no_arkham three_address_graph False
                       (Some 2) None))
     = [''WalletExplorer: queried 2 of 3 unattributed addresses (capped for speed). Use --thorough to check all.'']
   \<and> we_addresses_queried (fst (attribute_graph empty_db no_label no_arkham three_address_graph
                                    False (Some 2) None)) = 2
   \<and> we_addresses_total_unmatched (fst (attribute_graph empty_db no_label no_arkham
                                            three_address_graph False (Some 2) None)) = 3"
proof -
  have ns: "\<not> False" by simp
  have l3: "length [''a1'', ''a2'', ''a3''] = 3" by simp
  have t: "take (nat 2) [''a1'', ''a2'', ''a3''] = [''a1'', ''a2'']"
    by (simp add: numeral_2_eq_2)
  from attribute_graph_tier2_cap [OF ns, of empty_db three_address_graph no_label no_arkham
      "Some 2" None]
  show ?thesis
    unfolding Let_def case_prod_unfold three_address_unmatched three_address_warnings l3
      t
    by (simp add: we_cap_warning_2_3)
qed

end
